theory Spec2Isabelle
  imports Main
begin

section \<open>JSON values and the JavaScript coercions the client relies on\<close>

text \<open>
  The client (\<^verbatim>\<open>frontend-old/src/App.js\<close>) reads a handful of properties from the JSON
  objects the two endpoints answer with. A body that parses is an object, and the
  values of its properties are restricted to the kinds the endpoints produce:
  \<^verbatim>\<open>null\<close>, strings, and arrays of slide objects. A property that
  is absent reads as \<^verbatim>\<open>undefined\<close>, modelled as \<open>None\<close>. Strings are byte lists; the
  code only compares them and tests them for emptiness.
\<close>

record slide =
  slide_number :: "nat option"
  explanation :: "string option"

datatype jval = JNull | JStr string | JArr "slide list"

type_synonym jobj = "(string \<times> jval) list"

text \<open>\<^verbatim>\<open>data.k\<close> on a parsed object.\<close>

definition field :: "string \<Rightarrow> jobj \<Rightarrow> jval option" where
  "field k data = map_of data k"

fun truthy :: "jval \<Rightarrow> bool" where
  "truthy JNull = False"
| "truthy (JStr s) = (s \<noteq> [])"
| "truthy (JArr xs) = True"

text \<open>\<^verbatim>\<open>v || d\<close>, where \<open>v\<close> may be \<^verbatim>\<open>undefined\<close>.\<close>

definition js_or :: "jval option \<Rightarrow> jval \<Rightarrow> jval" where
  "js_or v d = (case v of None \<Rightarrow> d | Some x \<Rightarrow> if truthy x then x else d)"

text \<open>
  \<^verbatim>\<open>String(v)\<close>, as applied by a template literal and by \<^verbatim>\<open>new Error(v)\<close>: an array
  joins its elements with commas, and a plain object prints as \<^verbatim>\<open>[object Object]\<close>.
\<close>

fun join_comma :: "string list \<Rightarrow> string" where
  "join_comma [] = []"
| "join_comma [s] = s"
| "join_comma (s # t # ss) = s @ '','' @ join_comma (t # ss)"

fun String_js :: "jval option \<Rightarrow> string" where
  "String_js None = ''undefined''"
| "String_js (Some JNull) = ''null''"
| "String_js (Some (JStr s)) = s"
| "String_js (Some (JArr xs)) = join_comma (map (\<lambda>_. ''[object Object]'') xs)"

text \<open>\<^verbatim>\<open>v.length\<close>; reading a property of \<^verbatim>\<open>null\<close> throws, which is \<open>None\<close> here.\<close>

fun js_length :: "jval \<Rightarrow> nat option" where
  "js_length JNull = None"
| "js_length (JStr s) = Some (length s)"
| "js_length (JArr xs) = Some (length xs)"

section \<open>Constants of the client\<close>

definition API_URL :: string where
  "API_URL = ''https://slidesummarizer-backend.onrender.com''"

record level_config =
  label :: string
  description :: string
  color :: string
  bgColor :: string

record language_config =
  lang_label :: string
  code :: string

text \<open>The labels begin with an emoji, written here as its UTF-8 bytes.\<close>

definition SUMMARY_LEVELS :: "(string \<times> level_config) list" where
  "SUMMARY_LEVELS =
    [(''beginner'',
        \<lparr>label = [CHR 0xF0, CHR 0x9F, CHR 0x93, CHR 0x96] @ '' Beginner-Friendly'',
         description = ''Simple and clear explanation'',
         color = ''#FF6B9D'', bgColor = ''#FFE8F0''\<rparr>),
     (''comprehensive'',
        \<lparr>label = [CHR 0xF0, CHR 0x9F, CHR 0x93, CHR 0x8A] @ '' Comprehensive Analysis'',
         description = ''Detailed and thorough'',
         color = ''#4ECDC4'', bgColor = ''#E0F7F6''\<rparr>),
     (''executive'',
        \<lparr>label = [CHR 0xE2, CHR 0x9A, CHR 0xA1] @ '' Executive Brief'',
         description = ''Quick and concise'',
         color = ''#FFD93D'', bgColor = ''#FFF9E6''\<rparr>)]"

definition LANGUAGES :: "(string \<times> language_config) list" where
  "LANGUAGES =
    [(''en'', \<lparr>lang_label = [CHR 0xF0, CHR 0x9F, CHR 0x87, CHR 0xBA,
                               CHR 0xF0, CHR 0x9F, CHR 0x87, CHR 0xB8] @ '' English'',
               code = ''en''\<rparr>),
     (''he'', \<lparr>lang_label = [CHR 0xF0, CHR 0x9F, CHR 0x87, CHR 0xAE,
                               CHR 0xF0, CHR 0x9F, CHR 0x87, CHR 0xB1] @ '' Hebrew'',
               code = ''he''\<rparr>),
     (''ru'', \<lparr>lang_label = [CHR 0xF0, CHR 0x9F, CHR 0x87, CHR 0xB7,
                               CHR 0xF0, CHR 0x9F, CHR 0x87, CHR 0xBA] @ '' Russian'',
               code = ''ru''\<rparr>),
     (''es'', \<lparr>lang_label = [CHR 0xF0, CHR 0x9F, CHR 0x87, CHR 0xAA,
                               CHR 0xF0, CHR 0x9F, CHR 0x87, CHR 0xB8] @ '' Spanish'',
               code = ''es''\<rparr>)]"

section \<open>Component state, requests and asynchronous results\<close>

text \<open>
  The eight \<^verbatim>\<open>useState\<close> cells of \<^verbatim>\<open>App\<close> (lines 37-44); the cell \<^verbatim>\<open>file\<close> is called
  \<open>selectedFile\<close> here. A \<^verbatim>\<open>File\<close> is identified by its name;
  \<open>None\<close> stands for \<^verbatim>\<open>null\<close> and for the \<^verbatim>\<open>undefined\<close> of an empty file list. The
  cells \<open>uploadUid\<close>, \<open>explanations\<close> and \<open>error\<close> receive values taken from JSON
  bodies as they are, so they hold JSON values.
\<close>

type_synonym file_handle = string

record app =
  selectedFile :: "file_handle option"
  summaryLevel :: string
  language :: string
  uploadUid :: "jval option"
  statusText :: string
  loading :: bool
  explanations :: jval
  error :: jval

definition initial :: app where
  "initial = \<lparr>selectedFile = None, summaryLevel = ''comprehensive'', language = ''en'',
              uploadUid = Some (JStr []), statusText = [], loading = False,
              explanations = JArr [], error = JStr []\<rparr>"

datatype form_value = FileVal file_handle | TextVal string

type_synonym form = "(string \<times> form_value) list"

datatype request = POST string form | GET string

datatype effect = Fetch request | SetTimeout nat | SavePdf string

text \<open>
  How a \<^verbatim>\<open>fetch\<close> followed by \<^verbatim>\<open>response.json()\<close> settles: the fetch promise rejects
  with an error message, or resolves to a response with its \<^verbatim>\<open>ok\<close> flag and a body
  whose parse either rejects with a message (\<open>Inl\<close>) or yields an object (\<open>Inr\<close>).
\<close>

datatype fetch_result = Rejects string | Resolves bool "string + jobj"

text \<open>
  What an asynchronous function is doing when control returns to the event loop:
  finished, rejected with an error message, or suspended at an \<^verbatim>\<open>await\<close>.
  \<open>AwaitUpload\<close> keeps the \<^verbatim>\<open>summaryLevel\<close> captured by the closure of the render in
  which the button was clicked; the two polling states keep \<^verbatim>\<open>uid\<close>.
\<close>

datatype task = Idle | AwaitUpload string | AwaitStatus "jval option" | AwaitTimer "jval option"

datatype progress = Done | Threw string | Pending task

text \<open>How one pass through the body of \<^verbatim>\<open>while (true)\<close> ends.\<close>

datatype outcome = Break | Throw string | Sleep

section \<open>pollStatus\<close>

definition status_url :: "jval option \<Rightarrow> string" where
  "status_url uid = API_URL @ ''/status/'' @ String_js uid"

text \<open>
  The message of the \<^verbatim>\<open>TypeError\<close> raised by \<^verbatim>\<open>SUMMARY_LEVELS[summaryLevel].label\<close>
  when the key is missing (the wording is the engine's; V8's is used).
\<close>

definition TypeError_label :: string where
  "TypeError_label = ''Cannot read properties of undefined (reading 'label')''"

text \<open>
  Lines 90-96, up to the first \<^verbatim>\<open>await\<close>. The label lookup stands before the
  \<^verbatim>\<open>try\<close>, so a missing key rejects the promise of \<^verbatim>\<open>pollStatus\<close> itself.
\<close>

definition pollStatus :: "string \<Rightarrow> jval option \<Rightarrow> app \<Rightarrow> app \<times> effect list \<times> progress" where
  "pollStatus level uid st =
    (let st1 = st\<lparr>loading := True\<rparr> in
     case map_of SUMMARY_LEVELS level of
       None \<Rightarrow> (st1, [], Threw TypeError_label)
     | Some cfg \<Rightarrow>
         (st1\<lparr>statusText := [CHR 0xE2, CHR 0x8F, CHR 0xB3] @ '' Processing slides ('' @ label cfg @ '')...''\<rparr>,
          [Fetch (GET (status_url uid))],
          Pending (AwaitStatus uid)))"

text \<open>
  Lines 96-114: the loop body from the point where the status request has settled
  to the \<^verbatim>\<open>break\<close>, the \<^verbatim>\<open>throw\<close> or the \<^verbatim>\<open>setTimeout\<close>.
\<close>

definition poll_body :: "fetch_result \<Rightarrow> app \<Rightarrow> app \<times> outcome" where
  "poll_body r st =
    (case r of
       Rejects msg \<Rightarrow> (st, Throw msg)
     | Resolves ok body \<Rightarrow>
         if \<not> ok then (st, Throw ''Server error while checking status'')
         else (case body of
                 Inl msg \<Rightarrow> (st, Throw msg)
               | Inr data \<Rightarrow>
                   if field ''status'' data = Some (JStr ''completed'') then
                     (st\<lparr>statusText := [CHR 0xE2, CHR 0x9C, CHR 0xA8] @ '' Processing completed successfully!'',
                         explanations := js_or (field ''explanation'' data) (JArr []),
                         error := JStr []\<rparr>,
                      Break)
                   else if field ''status'' data = Some (JStr ''failed'') then
                     (st\<lparr>error := js_or (field ''error_message'' data) (JStr ''Processing failed''),
                         statusText := []\<rparr>,
                      Break)
                   else (st, Sleep)))"

text \<open>\<^verbatim>\<open>err.message || d\<close> for a message that is a string.\<close>

definition message_or :: "string \<Rightarrow> string \<Rightarrow> string" where
  "message_or msg d = (if msg = [] then d else msg)"

text \<open>
  The continuation of \<^verbatim>\<open>pollStatus\<close> once a status request has settled: the loop
  body, then either the timer, or the \<^verbatim>\<open>catch\<close> (lines 116-118) and \<^verbatim>\<open>finally\<close>
  (lines 119-121) blocks. \<^verbatim>\<open>pollStatus\<close> is only called from \<^verbatim>\<open>uploadFile\<close>, whose own
  \<^verbatim>\<open>finally\<close> (line 84) runs next and sets \<^verbatim>\<open>loading\<close> to \<^verbatim>\<open>false\<close> once more.
\<close>

definition pollStatus_resume :: "jval option \<Rightarrow> fetch_result \<Rightarrow> app \<Rightarrow> app \<times> effect list \<times> progress" where
  "pollStatus_resume uid r st =
    (case poll_body r st of
       (st', Sleep) \<Rightarrow> (st', [SetTimeout 2000], Pending (AwaitTimer uid))
     | (st', Break) \<Rightarrow> (st'\<lparr>loading := False\<rparr>, [], Done)
     | (st', Throw msg) \<Rightarrow>
         (st'\<lparr>error := JStr (message_or msg ''Status check failed''),
              statusText := [], loading := False\<rparr>, [], Done))"

text \<open>The timer of line 114 has fired: the next pass begins with a new request.\<close>

definition pollStatus_wake :: "jval option \<Rightarrow> app \<Rightarrow> app \<times> effect list \<times> progress" where
  "pollStatus_wake uid st = (st, [Fetch (GET (status_url uid))], Pending (AwaitStatus uid))"

text \<open>
  Lines 95-115 as the loop they are, for a run in which nothing else happens while
  the function waits: \<open>answers n\<close> is how the request of pass \<open>n\<close> settles. Each pass
  sends its request; a pass that reaches line 114 sets the timer and the next pass
  follows. The loop is left by \<^verbatim>\<open>break\<close> or \<^verbatim>\<open>throw\<close>, with the state, the requests and
  timers issued, and the way it was left; it has no value when it is never left.
  (\<open>pollStatus\<close> above ends inside the first pass, at its request.)
\<close>

partial_function (option) poll_while ::
  "jval option \<Rightarrow> (nat \<Rightarrow> fetch_result) \<Rightarrow> nat \<Rightarrow> app \<Rightarrow> effect list
     \<Rightarrow> (app \<times> effect list \<times> outcome) option"
where
  "poll_while uid answers n st es =
     (case poll_body (answers n) st of
        (st', Sleep) \<Rightarrow>
          poll_while uid answers (Suc n) st' (es @ [Fetch (GET (status_url uid)), SetTimeout 2000])
      | (st', Break) \<Rightarrow> Some (st', es @ [Fetch (GET (status_url uid))], Break)
      | (st', Throw msg) \<Rightarrow> Some (st', es @ [Fetch (GET (status_url uid))], Throw msg))"

section \<open>uploadFile\<close>

text \<open>Lines 58-62.\<close>

definition formData :: "file_handle \<Rightarrow> string \<Rightarrow> string \<Rightarrow> form" where
  "formData f level lang =
    [(''file'', FileVal f), (''email'', TextVal ''test@example.com''),
     (''summary_level'', TextVal level), (''language'', TextVal lang)]"

text \<open>Lines 47-67, up to the first \<^verbatim>\<open>await\<close>.\<close>

definition uploadFile :: "app \<Rightarrow> app \<times> effect list \<times> progress" where
  "uploadFile st =
    (case selectedFile st of
       None \<Rightarrow> (st\<lparr>error := JStr ''Please select a file first''\<rparr>, [], Done)
     | Some f \<Rightarrow>
         (st\<lparr>loading := True, error := JStr [], statusText := ''Uploading presentation...''\<rparr>,
          [Fetch (POST (API_URL @ ''/upload'') (formData f (summaryLevel st) (language st)))],
          Pending (AwaitUpload (summaryLevel st))))"

text \<open>
  Lines 69-79: the rest of the \<^verbatim>\<open>try\<close> block once the upload request has settled.
  An error body that does not parse is replaced by the empty object.
\<close>

definition upload_try :: "string \<Rightarrow> fetch_result \<Rightarrow> app \<Rightarrow> app \<times> effect list \<times> progress" where
  "upload_try level r st =
    (case r of
       Rejects msg \<Rightarrow> (st, [], Threw msg)
     | Resolves ok body \<Rightarrow>
         if \<not> ok then
           (let errBody = (case body of Inl _ \<Rightarrow> [] | Inr b \<Rightarrow> b) in
            (st, [], Threw (String_js (Some (js_or (field ''error'' errBody) (JStr ''Upload failed''))))))
         else (case body of
                 Inl msg \<Rightarrow> (st, [], Threw msg)
               | Inr data \<Rightarrow>
                   (let uid = field ''uid'' data in
                    pollStatus level uid
                      (st\<lparr>uploadUid := uid,
                          statusText := [CHR 0xE2, CHR 0x9C, CHR 0x85] @ '' File uploaded - Processing with AI...''\<rparr>))))"

text \<open>Lines 80-85: the \<^verbatim>\<open>catch\<close> and \<^verbatim>\<open>finally\<close> blocks of \<^verbatim>\<open>uploadFile\<close>.\<close>

definition uploadFile_resume :: "string \<Rightarrow> fetch_result \<Rightarrow> app \<Rightarrow> app \<times> effect list \<times> progress" where
  "uploadFile_resume level r st =
    (case upload_try level r st of
       (st', es, Pending t) \<Rightarrow> (st', es, Pending t)
     | (st', es, Done) \<Rightarrow> (st'\<lparr>loading := False\<rparr>, es, Done)
     | (st', es, Threw msg) \<Rightarrow>
         (st'\<lparr>error := JStr (message_or msg ''Upload failed''),
              statusText := [], loading := False\<rparr>, es, Done))"

section \<open>The synchronous handlers\<close>

text \<open>Lines 257-263, the \<^verbatim>\<open>onChange\<close> handler of the file input.\<close>

definition selectFile :: "file_handle option \<Rightarrow> app \<Rightarrow> app" where
  "selectFile f st =
    st\<lparr>selectedFile := f, explanations := JArr [], uploadUid := Some (JStr []),
       error := JStr [], statusText := []\<rparr>"

text \<open>
  Lines 125-180. Only the guard changes the state; the layout of the document is
  not modelled, and a value without \<^verbatim>\<open>forEach\<close> aborts the handler before the save.
\<close>

definition downloadPdf :: "app \<Rightarrow> app \<times> effect list" where
  "downloadPdf st =
    (case js_length (explanations st) of
       None \<Rightarrow> (st, [])
     | Some n \<Rightarrow>
         if n = 0 then (st\<lparr>error := JStr ''No explanations to export''\<rparr>, [])
         else (case explanations st of
                 JArr xs \<Rightarrow> (st, [SavePdf ''slides_explanations.pdf''])
               | _ \<Rightarrow> (st, [])))"

section \<open>The component as an event-driven machine\<close>

text \<open>
  JavaScript runs one handler at a time and an asynchronous function gives control
  back at each \<^verbatim>\<open>await\<close>, so the component is a machine driven by events: the
  user's actions, and the settling of the request or timer the asynchronous
  function is waiting for. A \<^verbatim>\<open>fetch\<close> and the \<^verbatim>\<open>json()\<close> that follows it are one event,
  since the code between them neither reads nor writes the state.

  A button exists for each entry of \<^verbatim>\<open>Object.entries(LANGUAGES)\<close> and of
  \<^verbatim>\<open>Object.entries(SUMMARY_LEVELS)\<close> (lines 312-315 and 367-371), so a click names an
  entry by its position. A disabled button fires no click: the language and level
  buttons while \<^verbatim>\<open>loading\<close> (lines 316, 372), the upload button while
  \<^verbatim>\<open>loading || !file\<close> (line 428), the download button while the list is empty
  (line 462). The file input (lines 254-268) is never disabled.
\<close>

datatype event =
    SelectFile "file_handle option"
  | ClickLanguage nat
  | ClickSummaryLevel nat
  | ClickUpload
  | ClickDownload
  | UploadSettled fetch_result
  | StatusSettled fetch_result
  | TimerFired

record config =
  ui :: app
  pending :: task
  log :: "effect list"

text \<open>The component after its first render, with nothing outstanding.\<close>

definition start :: config where
  "start = \<lparr>ui = initial, pending = Idle, log = []\<rparr>"

text \<open>
  A piece of an asynchronous function has run: the state is the one it left, the
  requests and timers it issued are recorded, and what it waits for next, if
  anything, becomes the outstanding task. One task is all there can be: a task is
  only started by the upload button, which is disabled while \<^verbatim>\<open>loading\<close>, and
  \<^verbatim>\<open>loading\<close> stays set for as long as a task is outstanding (\<open>busy_ok\<close> below).
\<close>

definition settle :: "config \<Rightarrow> app \<times> effect list \<times> progress \<Rightarrow> config" where
  "settle c x =
    (case x of (st, es, p) \<Rightarrow>
       c\<lparr>ui := st, pending := (case p of Pending t \<Rightarrow> t | _ \<Rightarrow> Idle), log := log c @ es\<rparr>)"

text \<open>
  One event. A click on a disabled button and the settling of something the
  component does not wait for do not occur; they leave the component as it is.
\<close>

fun step :: "event \<Rightarrow> config \<Rightarrow> config" where
  "step (SelectFile f) c = c\<lparr>ui := selectFile f (ui c)\<rparr>"
| "step (ClickLanguage i) c =
     (if i < length LANGUAGES \<and> \<not> loading (ui c)
      then c\<lparr>ui := (ui c)\<lparr>language := fst (LANGUAGES ! i)\<rparr>\<rparr> else c)"
| "step (ClickSummaryLevel i) c =
     (if i < length SUMMARY_LEVELS \<and> \<not> loading (ui c)
      then c\<lparr>ui := (ui c)\<lparr>summaryLevel := fst (SUMMARY_LEVELS ! i)\<rparr>\<rparr> else c)"
| "step ClickUpload c =
     (if loading (ui c) \<or> selectedFile (ui c) = None then c
      else settle c (uploadFile (ui c)))"
| "step ClickDownload c =
     (if js_length (explanations (ui c)) = Some 0 then c
      else (case downloadPdf (ui c) of (st, es) \<Rightarrow> c\<lparr>ui := st, log := log c @ es\<rparr>))"
| "step (UploadSettled r) c =
     (case pending c of
        AwaitUpload level \<Rightarrow> settle c (uploadFile_resume level r (ui c))
      | _ \<Rightarrow> c)"
| "step (StatusSettled r) c =
     (case pending c of
        AwaitStatus uid \<Rightarrow> settle c (pollStatus_resume uid r (ui c))
      | _ \<Rightarrow> c)"
| "step TimerFired c =
     (case pending c of
        AwaitTimer uid \<Rightarrow> settle c (pollStatus_wake uid (ui c))
      | _ \<Rightarrow> c)"

text \<open>A sequence of events, first to last.\<close>

fun run :: "event list \<Rightarrow> config \<Rightarrow> config" where
  "run [] c = c"
| "run (e # es) c = run es (step e c)"

text \<open>
  What the component renders of a job: the selected file's name (line 292), the
  upload identifier (line 500), the status line (line 506), the error line
  (line 519) and the slide cards (lines 527-598), each only when its cell is truthy
  or non-empty. This is the view when rendering succeeds; \<open>render_throws\<close> below says
  when it does not.
\<close>

record view =
  shown_file :: "file_handle option"
  shown_uid :: "jval option"
  shown_status :: "string option"
  shown_error :: "jval option"
  shown_slides :: "slide list"

definition render :: "app \<Rightarrow> view" where
  "render st =
    \<lparr>shown_file = selectedFile st,
     shown_uid = (case uploadUid st of None \<Rightarrow> None | Some v \<Rightarrow> if truthy v then Some v else None),
     shown_status = (if statusText st = [] then None else Some (statusText st)),
     shown_error = (if truthy (error st) then Some (error st) else None),
     shown_slides = (case explanations st of JArr xs \<Rightarrow> xs | _ \<Rightarrow> [])\<rparr>"

text \<open>
  When the render function throws, so that React unmounts the tree and nothing of
  \<open>render\<close> is displayed: \<^verbatim>\<open>explanations.length\<close> (lines 462, 527) throws on \<^verbatim>\<open>null\<close>;
  with a non-empty value the block of lines 527-598 is entered, where
  \<^verbatim>\<open>SUMMARY_LEVELS[summaryLevel].label\<close> (line 537) throws for a level that is not a
  key and \<^verbatim>\<open>explanations.map\<close> (line 548) throws for a value that is not an array.
\<close>

definition render_throws :: "app \<Rightarrow> bool" where
  "render_throws st =
    (case explanations st of
       JNull \<Rightarrow> True
     | JStr s \<Rightarrow> s \<noteq> []
     | JArr xs \<Rightarrow> xs \<noteq> [] \<and> map_of SUMMARY_LEVELS (summaryLevel st) = None)"

section \<open>Auxiliary notions for the statements\<close>

text \<open>
  The events of a polling phase in which the status requests settle as \<open>rs\<close> and the
  timer fires after each of them.
\<close>

fun poll_events :: "fetch_result list \<Rightarrow> event list" where
  "poll_events [] = []"
| "poll_events (r # rs) = StatusSettled r # TimerFired # poll_events rs"

text \<open>
  A status request that was answered with an OK response whose body parses and
  whose \<^verbatim>\<open>status\<close> is neither \<^verbatim>\<open>"completed"\<close> nor \<^verbatim>\<open>"failed"\<close>.
\<close>

definition waiting :: "fetch_result \<Rightarrow> bool" where
  "waiting r =
    (case r of
       Rejects _ \<Rightarrow> False
     | Resolves ok body \<Rightarrow>
         ok \<and> (case body of
                 Inl _ \<Rightarrow> False
               | Inr data \<Rightarrow> field ''status'' data \<noteq> Some (JStr ''completed'') \<and>
                            field ''status'' data \<noteq> Some (JStr ''failed'')))"

text \<open>An upload request is well formed when its form carries the fixed e-mail
  address and a level and a language that are keys of the two tables.\<close>

definition sent_ok :: "effect \<Rightarrow> bool" where
  "sent_ok e =
    (case e of
       Fetch (POST u frm) \<Rightarrow>
         map_of frm ''email'' = Some (TextVal ''test@example.com'') \<and>
         (case map_of frm ''summary_level'' of
            Some (TextVal l) \<Rightarrow> l \<in> set (map fst SUMMARY_LEVELS) | _ \<Rightarrow> False) \<and>
         (case map_of frm ''language'' of
            Some (TextVal g) \<Rightarrow> g \<in> set (map fst LANGUAGES) | _ \<Rightarrow> False)
     | _ \<Rightarrow> True)"

definition selection_ok :: "config \<Rightarrow> bool" where
  "selection_ok c =
    (summaryLevel (ui c) \<in> set (map fst SUMMARY_LEVELS) \<and>
     language (ui c) \<in> set (map fst LANGUAGES) \<and>
     list_all sent_ok (log c))"

definition configured_upload :: "event list" where
  "configured_upload =
    [SelectFile (Some ''deck.pptx''), ClickSummaryLevel 2, ClickLanguage 1, ClickUpload]"

text \<open>
  A component in the middle of polling for the job \<^verbatim>\<open>u1\<close>, and status answers used
  to illustrate the statements below.
\<close>

definition polling_u1 :: config where
  "polling_u1 =
    \<lparr>ui = initial\<lparr>selectedFile := Some ''deck.pptx'', loading := True,
                    uploadUid := Some (JStr ''u1''), statusText := ''Processing''\<rparr>,
     pending = AwaitStatus (Some (JStr ''u1'')),
     log = []\<rparr>"

definition slide_a :: slide where
  "slide_a = \<lparr>slide_number = Some 1, explanation = Some ''about a''\<rparr>"

definition answer :: "string \<Rightarrow> fetch_result" where
  "answer s = Resolves True (Inr [(''status'', JStr s)])"

definition completed_snapshot :: jobj where
  "completed_snapshot = [(''status'', JStr ''completed''), (''explanation'', JArr [slide_a])]"

definition failed_snapshot :: jobj where
  "failed_snapshot = [(''status'', JStr ''failed''), (''error_message'', JStr ''Could not parse file'')]"

text \<open>Three answers "processing" and then the completed snapshot; and "processing" for ever.\<close>

definition three_then_completed :: "nat \<Rightarrow> fetch_result" where
  "three_then_completed n =
    (if n < 3 then answer ''processing'' else Resolves True (Inr completed_snapshot))"

definition always_processing :: "nat \<Rightarrow> fetch_result" where
  "always_processing n = answer ''processing''"

text \<open>
  A run in which a second file is chosen while the job of the first one is still
  being polled, and the job then completes.
\<close>

definition stale_result_trace :: "event list" where
  "stale_result_trace =
    [SelectFile (Some ''a.pptx''), ClickUpload,
     UploadSettled (Resolves True (Inr [(''uid'', JStr ''u1'')])),
     SelectFile (Some ''b.pptx''),
     StatusSettled (Resolves True (Inr completed_snapshot))]"

text \<open>A failed job whose message is the text the client uses for a failed query.\<close>

definition same_text_snapshot :: jobj where
  "same_text_snapshot =
    [(''status'', JStr ''failed''), (''error_message'', JStr ''Server error while checking status'')]"

text \<open>While a request or timer is outstanding the component is \<^verbatim>\<open>loading\<close>.\<close>

definition busy_ok :: "config \<Rightarrow> bool" where
  "busy_ok c = (pending c = Idle \<or> loading (ui c))"

section \<open>The job store and the worker's writes\<close>

text \<open>
  Modelled from the spec: the Job Store, the Intake Service and the Worker Loop
  (\<^verbatim>\<open>database.py\<close>, \<^verbatim>\<open>api/app.py\<close> and \<^verbatim>\<open>explainer/explainer_service.py\<close> of the backend)
  are not among the sources; only the client and the two README files are. The
  definitions of this section follow sections 3, 4.1, 4.2 and 5 of the specification.
\<close>

text \<open>Modelled from the spec: the four values of \<^verbatim>\<open>status\<close> (section 3).\<close>

datatype status = Uploaded | Processing | Completed | Failed

text \<open>
  Modelled from the spec: the Job record of section 3. Identifiers are natural
  numbers and times are ticks.
\<close>

record job =
  job_id :: nat
  filename :: string
  status :: status
  created_at :: nat
  finished_at :: "nat option"
  error_message :: string
  result :: "string list"
  owner :: "string option"

text \<open>
  Modelled from the spec: the store is the table of all jobs. Jobs are never deleted
  (section 3, lifecycle), so the position of a job serves as its identifier and the
  next free position is always fresh.
\<close>

type_synonym store = "job list"

text \<open>Modelled from the spec: \<^verbatim>\<open>get(id)\<close> of section 4.3; \<open>None\<close> is \<^verbatim>\<open>NotFound\<close>.\<close>

definition get_job :: "store \<Rightarrow> nat \<Rightarrow> job option" where
  "get_job s i = (if i < length s then Some (s ! i) else None)"

text \<open>
  Modelled from the spec: the writes that reach the store. Intake creates a job
  (section 4.1); the worker claims a job, and writes one of the two terminal outcomes
  (section 4.2).
\<close>

datatype op =
    Intake string "string option" nat
  | Claim nat
  | Complete nat "string list" nat
  | Fail nat string nat

text \<open>
  Modelled from the spec: the conditional update of section 5, "a transition write is
  accepted only if the row's status still matches the expected prior state,
  otherwise it is rejected".
\<close>

definition write_if :: "status \<Rightarrow> (job \<Rightarrow> job) \<Rightarrow> nat \<Rightarrow> store \<Rightarrow> store" where
  "write_if expected upd i s =
    (case get_job s i of
       None \<Rightarrow> s
     | Some j \<Rightarrow> if status j = expected then s[i := upd j] else s)"

text \<open>
  Modelled from the spec: intake creates the job at \<^verbatim>\<open>uploaded\<close> with a fresh identifier
  (section 4.1); the claim moves \<^verbatim>\<open>uploaded\<close> to \<^verbatim>\<open>processing\<close>; completion writes the
  result and failure the error message, each setting \<^verbatim>\<open>finished_at\<close> (section 4.2).
\<close>

fun apply_op :: "op \<Rightarrow> store \<Rightarrow> store" where
  "apply_op (Intake name email now) s =
     s @ [\<lparr>job_id = length s, filename = name, status = Uploaded, created_at = now,
           finished_at = None, error_message = [], result = [], owner = email\<rparr>]"
| "apply_op (Claim i) s = write_if Uploaded (\<lambda>j. j\<lparr>status := Processing\<rparr>) i s"
| "apply_op (Complete i summaries now) s =
     write_if Processing
       (\<lambda>j. j\<lparr>status := Completed, result := summaries, finished_at := Some now\<rparr>) i s"
| "apply_op (Fail i msg now) s =
     write_if Processing
       (\<lambda>j. j\<lparr>status := Failed, error_message := msg, finished_at := Some now\<rparr>) i s"

text \<open>Modelled from the spec: a history of the system is a sequence of such writes.\<close>

fun run_ops :: "op list \<Rightarrow> store \<Rightarrow> store" where
  "run_ops [] s = s"
| "run_ops (x # xs) s = run_ops xs (apply_op x s)"

text \<open>
  Modelled from the spec: what a status query for \<open>i\<close> observes in one store, and the
  sequence of statuses it observes when it is asked before the first write and
  after every write of a history.
\<close>

definition observed :: "store \<Rightarrow> nat \<Rightarrow> status list" where
  "observed s i = (case get_job s i of None \<Rightarrow> [] | Some j \<Rightarrow> [status j])"

fun status_trace :: "nat \<Rightarrow> op list \<Rightarrow> store \<Rightarrow> status list" where
  "status_trace i [] s = observed s i"
| "status_trace i (x # xs) s = observed s i @ status_trace i xs (apply_op x s)"

text \<open>
  Modelled from the spec: the state machine of section 4.2, \<^verbatim>\<open>uploaded\<close> to
  \<^verbatim>\<open>processing\<close> to \<^verbatim>\<open>completed\<close> or \<^verbatim>\<open>failed\<close>; \<open>advance a b\<close> holds when \<open>b\<close> is \<open>a\<close> or
  its immediate successor.
\<close>

fun advance :: "status \<Rightarrow> status \<Rightarrow> bool" where
  "advance Uploaded Processing = True"
| "advance Processing Completed = True"
| "advance Processing Failed = True"
| "advance a b = (a = b)"

text \<open>Modelled from the spec: the terminal states of section 4.2.\<close>

fun terminal :: "status \<Rightarrow> bool" where
  "terminal Completed = True"
| "terminal Failed = True"
| "terminal _ = False"

text \<open>A history used to illustrate the statement about the store.\<close>

definition sample_history :: "op list" where
  "sample_history =
    [Intake ''deck.pptx'' None 1, Claim 0, Complete 0 [''first slide''] 5, Claim 0,
     Fail 0 ''late'' 6]"

definition finished_store :: store where
  "finished_store =
    [\<lparr>job_id = 0, filename = ''deck.pptx'', status = Completed, created_at = 1,
      finished_at = Some 5, error_message = [], result = [''first slide''], owner = None\<rparr>]"

section \<open>Properties of the client\<close>

subsection \<open>The selection stays inside the two tables\<close>

lemma level_keys: "set (map fst SUMMARY_LEVELS) = {''beginner'', ''comprehensive'', ''executive''}"
  by (simp add: SUMMARY_LEVELS_def)

lemma language_keys: "set (map fst LANGUAGES) = {''en'', ''he'', ''ru'', ''es''}"
  by (simp add: LANGUAGES_def)

lemma pollStatus_keeps:
  "pollStatus level uid st = (st', es, p) \<Longrightarrow>
     summaryLevel st' = summaryLevel st \<and> language st' = language st \<and> list_all sent_ok es"
  by (auto simp: pollStatus_def Let_def sent_ok_def split: option.splits)

lemma poll_body_keeps:
  "poll_body r st = (st', oc) \<Longrightarrow> summaryLevel st' = summaryLevel st \<and> language st' = language st"
  by (auto simp: poll_body_def split: fetch_result.splits sum.splits if_splits)

lemma pollStatus_resume_keeps:
  "pollStatus_resume uid r st = (st', es, p) \<Longrightarrow>
     summaryLevel st' = summaryLevel st \<and> language st' = language st \<and> list_all sent_ok es"
  by (auto simp: pollStatus_resume_def sent_ok_def split: prod.splits outcome.splits
           dest: poll_body_keeps)

lemma upload_try_keeps:
  "upload_try level r st = (st', es, p) \<Longrightarrow>
     summaryLevel st' = summaryLevel st \<and> language st' = language st \<and> list_all sent_ok es"
  by (auto simp: upload_try_def Let_def split: fetch_result.splits sum.splits if_splits
           dest: pollStatus_keeps)

lemma uploadFile_resume_keeps:
  "uploadFile_resume level r st = (st', es, p) \<Longrightarrow>
     summaryLevel st' = summaryLevel st \<and> language st' = language st \<and> list_all sent_ok es"
  by (auto simp: uploadFile_resume_def split: prod.splits progress.splits dest: upload_try_keeps)

lemma uploadFile_keeps:
  "uploadFile st = (st', es, p) \<Longrightarrow>
     summaryLevel st \<in> set (map fst SUMMARY_LEVELS) \<Longrightarrow>
     language st \<in> set (map fst LANGUAGES) \<Longrightarrow>
     summaryLevel st' = summaryLevel st \<and> language st' = language st \<and> list_all sent_ok es"
  by (cases "selectedFile st")
     (auto simp: uploadFile_def sent_ok_def formData_def simp del: set_map)

lemma downloadPdf_keeps:
  "downloadPdf st = (st', es) \<Longrightarrow>
     summaryLevel st' = summaryLevel st \<and> language st' = language st \<and> list_all sent_ok es"
  by (auto simp: downloadPdf_def sent_ok_def split: option.splits if_splits jval.splits)

lemma selection_ok_settle:
  "selection_ok c \<Longrightarrow> x = (st', es, p) \<Longrightarrow> summaryLevel st' = summaryLevel (ui c) \<Longrightarrow>
   language st' = language (ui c) \<Longrightarrow> list_all sent_ok es \<Longrightarrow> selection_ok (settle c x)"
  by (simp add: selection_ok_def settle_def)

lemma selection_ok_step:
  assumes i: "selection_ok c"
  shows "selection_ok (step e c)"
proof (cases e)
  case (SelectFile f)
  with i show ?thesis by (simp add: selection_ok_def selectFile_def)
next
  case (ClickLanguage k)
  with i show ?thesis by (auto simp: selection_ok_def)
next
  case (ClickSummaryLevel k)
  with i show ?thesis by (auto simp: selection_ok_def)
next
  case ClickUpload
  obtain st' es p where u: "uploadFile (ui c) = (st', es, p)"
    by (cases "uploadFile (ui c)") auto
  from i have "summaryLevel (ui c) \<in> set (map fst SUMMARY_LEVELS)"
    and "language (ui c) \<in> set (map fst LANGUAGES)"
    by (simp_all add: selection_ok_def)
  with uploadFile_keeps[OF u] i u ClickUpload show ?thesis
    by (simp add: selection_ok_settle)
next
  case ClickDownload
  obtain st' es where u: "downloadPdf (ui c) = (st', es)"
    by (cases "downloadPdf (ui c)") auto
  with downloadPdf_keeps[OF u] i ClickDownload show ?thesis
    by (simp add: selection_ok_def)
next
  case (UploadSettled r)
  show ?thesis
  proof (cases "pending c")
    case (AwaitUpload level)
    obtain st' es p where u: "uploadFile_resume level r (ui c) = (st', es, p)"
      by (cases "uploadFile_resume level r (ui c)") auto
    with uploadFile_resume_keeps[OF u] i UploadSettled AwaitUpload show ?thesis
      by (simp add: selection_ok_settle)
  qed (use i UploadSettled in simp_all)
next
  case (StatusSettled r)
  show ?thesis
  proof (cases "pending c")
    case (AwaitStatus uid)
    obtain st' es p where u: "pollStatus_resume uid r (ui c) = (st', es, p)"
      by (cases "pollStatus_resume uid r (ui c)") auto
    with pollStatus_resume_keeps[OF u] i StatusSettled AwaitStatus show ?thesis
      by (simp add: selection_ok_settle)
  qed (use i StatusSettled in simp_all)
next
  case TimerFired
  show ?thesis
  proof (cases "pending c")
    case (AwaitTimer uid)
    with i TimerFired show ?thesis
      by (simp add: selection_ok_def settle_def pollStatus_wake_def sent_ok_def)
  qed (use i TimerFired in simp_all)
qed

lemma selection_ok_run: "selection_ok c \<Longrightarrow> selection_ok (run evs c)"
  by (induction evs arbitrary: c) (simp_all add: selection_ok_step)

lemma selection_ok_start: "selection_ok start"
  by (simp add: selection_ok_def start_def initial_def SUMMARY_LEVELS_def LANGUAGES_def)

text \<open>In a reachable state that holds an array of summaries, rendering succeeds.\<close>

lemma reachable_render_succeeds:
  assumes "explanations (ui (run evs start)) = JArr xs"
  shows "\<not> render_throws (ui (run evs start))"
proof -
  have "selection_ok (run evs start)"
    by (rule selection_ok_run[OF selection_ok_start])
  then have "summaryLevel (ui (run evs start)) \<in> fst ` set SUMMARY_LEVELS"
    by (simp add: selection_ok_def)
  then have "map_of SUMMARY_LEVELS (summaryLevel (ui (run evs start))) \<noteq> None"
    by (simp add: map_of_eq_None_iff)
  with assms show ?thesis by (simp add: render_throws_def)
qed

lemma sent_ok_post:
  assumes "list_all sent_ok es" and "Fetch (POST u frm) \<in> set es"
  shows "map_of frm ''email'' = Some (TextVal ''test@example.com'') \<and>
     (\<exists>l\<in>set (map fst SUMMARY_LEVELS). map_of frm ''summary_level'' = Some (TextVal l)) \<and>
     (\<exists>g\<in>set (map fst LANGUAGES). map_of frm ''language'' = Some (TextVal g))"
proof -
  from assms have ok: "sent_ok (Fetch (POST u frm))" by (simp add: list_all_iff)
  then have e: "map_of frm ''email'' = Some (TextVal ''test@example.com'')"
    by (simp add: sent_ok_def)
  from ok obtain l where l: "map_of frm ''summary_level'' = Some (TextVal l)"
      "l \<in> set (map fst SUMMARY_LEVELS)"
    by (cases "map_of frm ''summary_level''"; cases "the (map_of frm ''summary_level'')")
       (simp_all add: sent_ok_def del: set_map)
  from ok l obtain g where g: "map_of frm ''language'' = Some (TextVal g)"
      "g \<in> set (map fst LANGUAGES)"
    by (cases "map_of frm ''language''"; cases "the (map_of frm ''language'')")
       (simp_all add: sent_ok_def del: set_map)
  from e l g show ?thesis by blast
qed

lemma configured_upload_run:
  "run configured_upload start =
     \<lparr>ui = initial\<lparr>selectedFile := Some ''deck.pptx'', summaryLevel := ''executive'',
                    language := ''he'', loading := True,
                    statusText := ''Uploading presentation...''\<rparr>,
      pending = AwaitUpload ''executive'',
      log = [Fetch (POST (API_URL @ ''/upload'') (formData ''deck.pptx'' ''executive'' ''he''))]\<rparr>"
  by (simp add: configured_upload_def start_def initial_def selectFile_def uploadFile_def
                settle_def SUMMARY_LEVELS_def LANGUAGES_def)

text \<open>
  Claim C4. In every state the component can reach from its initial state, under
  any sequence of user actions and of settled requests and timers, the selected
  summary level is one of beginner, comprehensive, executive and the selected
  language is one of en, he, ru, es; and every upload request that was sent carries
  a level and a language from these sets. (On the wire the level travels in the
  form field \<^verbatim>\<open>summary_level\<close>.)
\<close>

theorem configuration_in_enumerations:
  "summaryLevel (ui (run evs start)) \<in> {''beginner'', ''comprehensive'', ''executive''} \<and>
   language (ui (run evs start)) \<in> {''en'', ''he'', ''ru'', ''es''} \<and>
   (\<forall>u frm. Fetch (POST u frm) \<in> set (log (run evs start)) \<longrightarrow>
      (\<exists>l\<in>{''beginner'', ''comprehensive'', ''executive''}.
          map_of frm ''summary_level'' = Some (TextVal l)) \<and>
      (\<exists>g\<in>{''en'', ''he'', ''ru'', ''es''}. map_of frm ''language'' = Some (TextVal g)))"
proof -
  have i: "selection_ok (run evs start)"
    by (rule selection_ok_run[OF selection_ok_start])
  then have "list_all sent_ok (log (run evs start))"
    by (simp add: selection_ok_def)
  from sent_ok_post[OF this] i show ?thesis
    unfolding selection_ok_def level_keys language_keys by blast
qed

text \<open>
  The claim at a concrete run: a file is chosen, the third level button and the
  second language button are clicked, and the upload is started.
\<close>

theorem configuration_in_enumerations_witness:
  "Fetch (POST (API_URL @ ''/upload'') (formData ''deck.pptx'' ''executive'' ''he''))
     \<in> set (log (run configured_upload start)) \<and>
   (\<exists>l\<in>{''beginner'', ''comprehensive'', ''executive''}.
       map_of (formData ''deck.pptx'' ''executive'' ''he'') ''summary_level'' = Some (TextVal l)) \<and>
   (\<exists>g\<in>{''en'', ''he'', ''ru'', ''es''}.
       map_of (formData ''deck.pptx'' ''executive'' ''he'') ''language'' = Some (TextVal g)) \<and>
   summaryLevel (ui (run configured_upload start)) \<in> {''beginner'', ''comprehensive'', ''executive''} \<and>
   language (ui (run configured_upload start)) \<in> {''en'', ''he'', ''ru'', ''es''}"
proof -
  have h: "Fetch (POST (API_URL @ ''/upload'') (formData ''deck.pptx'' ''executive'' ''he''))
             \<in> set (log (run configured_upload start))"
    by (simp add: configured_upload_run)
  from configuration_in_enumerations[of configured_upload] h show ?thesis
    by blast
qed

subsection \<open>The owner address\<close>

text \<open>
  Claim C8. Every upload request carries the fixed owner address
  \<^verbatim>\<open>test@example.com\<close>: \<^verbatim>\<open>uploadFile\<close> with a file selected sends exactly one request,
  a POST whose form has that address under \<^verbatim>\<open>email\<close>, and no run of the component
  ever sends an upload request without it.
\<close>

theorem every_upload_carries_fixed_email:
  "(\<forall>f. selectedFile st = Some f \<longrightarrow>
      (\<exists>frm. fst (snd (uploadFile st)) = [Fetch (POST (API_URL @ ''/upload'') frm)] \<and>
             map_of frm ''email'' = Some (TextVal ''test@example.com''))) \<and>
   (\<forall>u frm. Fetch (POST u frm) \<in> set (log (run evs start)) \<longrightarrow>
      map_of frm ''email'' = Some (TextVal ''test@example.com''))"
proof -
  have "selection_ok (run evs start)"
    by (rule selection_ok_run[OF selection_ok_start])
  then have "list_all sent_ok (log (run evs start))"
    by (simp add: selection_ok_def)
  from sent_ok_post[OF this] show ?thesis
    by (auto simp: uploadFile_def formData_def)
qed

theorem every_upload_carries_fixed_email_witness:
  "selectedFile (initial\<lparr>selectedFile := Some ''deck.pptx''\<rparr>) = Some ''deck.pptx'' \<and>
   Fetch (POST (API_URL @ ''/upload'') (formData ''deck.pptx'' ''executive'' ''he''))
     \<in> set (log (run configured_upload start)) \<and>
   map_of (formData ''deck.pptx'' ''executive'' ''he'') ''email'' = Some (TextVal ''test@example.com'') \<and>
   (\<exists>frm. fst (snd (uploadFile (initial\<lparr>selectedFile := Some ''deck.pptx''\<rparr>)))
            = [Fetch (POST (API_URL @ ''/upload'') frm)] \<and>
          map_of frm ''email'' = Some (TextVal ''test@example.com''))"
proof -
  have h1: "selectedFile (initial\<lparr>selectedFile := Some ''deck.pptx''\<rparr>) = Some ''deck.pptx''"
    by simp
  have h2: "Fetch (POST (API_URL @ ''/upload'') (formData ''deck.pptx'' ''executive'' ''he''))
              \<in> set (log (run configured_upload start))"
    by (simp add: configured_upload_run)
  from every_upload_carries_fixed_email
         [of "initial\<lparr>selectedFile := Some ''deck.pptx''\<rparr>" configured_upload] h1 h2
  show ?thesis by blast
qed

subsection \<open>uploadFile without a file\<close>

text \<open>
  Claim C10. Invoked while no file is selected, \<^verbatim>\<open>uploadFile\<close> stores the message
  "Please select a file first" in the error cell and returns: it sends no request,
  does not touch \<^verbatim>\<open>loading\<close>, and leaves every other cell as it was.
\<close>

theorem uploadFile_without_file:
  "selectedFile st = None \<Longrightarrow>
     uploadFile st = (st\<lparr>error := JStr ''Please select a file first''\<rparr>, [], Done)"
  by (simp add: uploadFile_def)

theorem uploadFile_without_file_witness:
  "selectedFile initial = None \<and>
   uploadFile initial =
     (\<lparr>selectedFile = None, summaryLevel = ''comprehensive'', language = ''en'',
       uploadUid = Some (JStr []), statusText = [], loading = False,
       explanations = JArr [], error = JStr ''Please select a file first''\<rparr>, [], Done)"
proof -
  have h: "selectedFile initial = None" by (simp add: initial_def)
  from uploadFile_without_file[OF h] h show ?thesis by (simp add: initial_def)
qed

subsection \<open>One task at a time\<close>

text \<open>
  In every reachable state, \<^verbatim>\<open>loading\<close> is set while a request or timer is outstanding,
  so the upload button cannot start a second task.
\<close>

lemma busy_ok_step:
  assumes i: "busy_ok c"
  shows "busy_ok (step e c)"
proof (cases e)
  case (SelectFile f)
  with i show ?thesis by (simp add: busy_ok_def selectFile_def)
next
  case (ClickLanguage k)
  with i show ?thesis by (auto simp: busy_ok_def)
next
  case (ClickSummaryLevel k)
  with i show ?thesis by (auto simp: busy_ok_def)
next
  case ClickUpload
  with i show ?thesis
    by (auto simp: busy_ok_def uploadFile_def settle_def split: option.splits)
next
  case ClickDownload
  with i show ?thesis
    by (auto simp: busy_ok_def downloadPdf_def split: option.splits jval.splits prod.splits)
next
  case (UploadSettled r)
  with i show ?thesis
    by (auto simp: busy_ok_def settle_def uploadFile_resume_def upload_try_def pollStatus_def Let_def
             split: task.splits fetch_result.splits sum.splits option.splits)
next
  case (StatusSettled r)
  with i show ?thesis
    by (auto simp: busy_ok_def settle_def pollStatus_resume_def poll_body_def
             split: task.splits fetch_result.splits sum.splits)
next
  case TimerFired
  with i show ?thesis
    by (auto simp: busy_ok_def settle_def pollStatus_wake_def split: task.splits)
qed

lemma busy_while_pending: "busy_ok (run evs start)"
proof -
  have "busy_ok c \<Longrightarrow> busy_ok (run evs c)" for c
    by (induction evs arbitrary: c) (simp_all add: busy_ok_step)
  moreover have "busy_ok start" by (simp add: busy_ok_def start_def)
  ultimately show ?thesis .
qed

subsection \<open>The polling loop\<close>

lemma run_append: "run (xs @ ys) c = run ys (run xs c)"
  by (induction xs arbitrary: c) simp_all

lemma poll_body_completed:
  "field ''status'' data = Some (JStr ''completed'') \<Longrightarrow>
     poll_body (Resolves True (Inr data)) st =
       (st\<lparr>statusText := [CHR 0xE2, CHR 0x9C, CHR 0xA8] @ '' Processing completed successfully!'',
           explanations := js_or (field ''explanation'' data) (JArr []),
           error := JStr []\<rparr>, Break)"
  by (simp add: poll_body_def)

lemma poll_body_failed:
  "field ''status'' data = Some (JStr ''failed'') \<Longrightarrow>
     poll_body (Resolves True (Inr data)) st =
       (st\<lparr>error := js_or (field ''error_message'' data) (JStr ''Processing failed''),
           statusText := []\<rparr>, Break)"
  by (simp add: poll_body_def)

lemma poll_body_not_ok:
  "poll_body (Resolves False body) st = (st, Throw ''Server error while checking status'')"
  by (simp add: poll_body_def)

lemma pollStatus_resume_break:
  "poll_body r st = (st', Break) \<Longrightarrow>
     pollStatus_resume uid r st = (st'\<lparr>loading := False\<rparr>, [], Done)"
  by (simp add: pollStatus_resume_def)

lemma pollStatus_resume_throw:
  "poll_body r st = (st', Throw msg) \<Longrightarrow>
     pollStatus_resume uid r st =
       (st'\<lparr>error := JStr (message_or msg ''Status check failed''), statusText := [],
            loading := False\<rparr>, [], Done)"
  by (simp add: pollStatus_resume_def)

lemma step_status_done:
  "pending c = AwaitStatus uid \<Longrightarrow> pollStatus_resume uid r (ui c) = (st', [], Done) \<Longrightarrow>
     step (StatusSettled r) c = c\<lparr>ui := st', pending := Idle\<rparr>"
  by (cases c) (simp add: settle_def)

lemma waiting_body: "waiting r \<Longrightarrow> poll_body r st = (st, Sleep)"
  by (auto simp: waiting_def poll_body_def split: fetch_result.splits sum.splits)

lemma not_waiting_body: "\<not> waiting r \<Longrightarrow> snd (poll_body r st) \<noteq> Sleep"
  by (auto simp: waiting_def poll_body_def split: fetch_result.splits sum.splits)

lemma step_waiting:
  "pending c = AwaitStatus uid \<Longrightarrow> waiting r \<Longrightarrow>
     step (StatusSettled r) c = c\<lparr>pending := AwaitTimer uid, log := log c @ [SetTimeout 2000]\<rparr>"
  by (simp add: pollStatus_resume_def waiting_body settle_def)

lemma step_not_waiting:
  "pending c = AwaitStatus uid \<Longrightarrow> \<not> waiting r \<Longrightarrow>
     pending (step (StatusSettled r) c) = Idle \<and> log (step (StatusSettled r) c) = log c"
  using not_waiting_body[of r "ui c"]
  by (cases "poll_body r (ui c)"; cases "snd (poll_body r (ui c))")
     (simp_all add: pollStatus_resume_def settle_def)

lemma step_timer:
  "pending c = AwaitTimer uid \<Longrightarrow>
     step TimerFired c =
       c\<lparr>pending := AwaitStatus uid, log := log c @ [Fetch (GET (status_url uid))]\<rparr>"
  by (simp add: pollStatus_wake_def settle_def)

lemma round_waiting:
  assumes "pending c = AwaitStatus uid" and "waiting r"
  shows "step TimerFired (step (StatusSettled r) c) =
           c\<lparr>log := log c @ [SetTimeout 2000, Fetch (GET (status_url uid))]\<rparr>"
proof -
  let ?c1 = "c\<lparr>pending := AwaitTimer uid, log := log c @ [SetTimeout 2000]\<rparr>"
  have s1: "step (StatusSettled r) c = ?c1" by (rule step_waiting[OF assms])
  have "step TimerFired ?c1 =
          ?c1\<lparr>pending := AwaitStatus uid, log := log ?c1 @ [Fetch (GET (status_url uid))]\<rparr>"
    by (rule step_timer) simp
  with s1 assms(1) show ?thesis by (cases c) simp
qed

lemma run_waiting:
  "pending c = AwaitStatus uid \<Longrightarrow> list_all waiting rs \<Longrightarrow>
     run (poll_events rs) c =
       c\<lparr>log := log c @
            concat (replicate (length rs) [SetTimeout 2000, Fetch (GET (status_url uid))])\<rparr>"
proof (induction rs arbitrary: c)
  case Nil
  then show ?case by simp
next
  case (Cons r rs)
  let ?c2 = "c\<lparr>log := log c @ [SetTimeout 2000, Fetch (GET (status_url uid))]\<rparr>"
  from Cons.prems have s: "step TimerFired (step (StatusSettled r) c) = ?c2"
    by (intro round_waiting) simp_all
  have p2: "pending ?c2 = AwaitStatus uid" using Cons.prems(1) by simp
  from Cons.prems have "list_all waiting rs" by simp
  from Cons.IH[OF p2 this] s show ?case by simp
qed

lemma step_completed:
  assumes "pending c = AwaitStatus uid" and "field ''status'' data = Some (JStr ''completed'')"
  shows "step (StatusSettled (Resolves True (Inr data))) c =
       c\<lparr>ui := (ui c)\<lparr>statusText := [CHR 0xE2, CHR 0x9C, CHR 0xA8] @ '' Processing completed successfully!'',
                       explanations := js_or (field ''explanation'' data) (JArr []),
                       error := JStr [], loading := False\<rparr>,
         pending := Idle\<rparr>"
  using step_status_done[OF assms(1) pollStatus_resume_break[OF poll_body_completed[OF assms(2)]]]
  by simp

lemma step_failed:
  assumes "pending c = AwaitStatus uid" and "field ''status'' data = Some (JStr ''failed'')"
  shows "step (StatusSettled (Resolves True (Inr data))) c =
       c\<lparr>ui := (ui c)\<lparr>error := js_or (field ''error_message'' data) (JStr ''Processing failed''),
                       statusText := [], loading := False\<rparr>,
         pending := Idle\<rparr>"
  using step_status_done[OF assms(1) pollStatus_resume_break[OF poll_body_failed[OF assms(2)]]]
  by simp

lemma pollStatus_first_query:
  "level \<in> set (map fst SUMMARY_LEVELS) \<Longrightarrow>
     snd (pollStatus level uid st) = ([Fetch (GET (status_url uid))], Pending (AwaitStatus uid))"
  by (auto simp: pollStatus_def Let_def SUMMARY_LEVELS_def)

lemma poll_while_waiting:
  "waiting (answers n) \<Longrightarrow>
     poll_while uid answers n st es =
     poll_while uid answers (Suc n) st (es @ [Fetch (GET (status_url uid)), SetTimeout 2000])"
  by (subst poll_while.simps) (simp add: waiting_body)

lemma poll_while_exit:
  assumes "\<not> waiting (answers n)"
  shows "poll_while uid answers n st es =
     Some (fst (poll_body (answers n) st), es @ [Fetch (GET (status_url uid))],
           snd (poll_body (answers n) st))"
proof (cases "poll_body (answers n) st")
  case (Pair st' oc)
  with not_waiting_body[OF assms, of st] have "oc \<noteq> Sleep" by simp
  with Pair show ?thesis
    by (subst poll_while.simps) (cases oc; simp)
qed

lemma poll_while_rounds:
  "(\<forall>k<m. waiting (answers (n + k))) \<Longrightarrow>
     poll_while uid answers n st es =
     poll_while uid answers (n + m) st
       (es @ concat (replicate m [Fetch (GET (status_url uid)), SetTimeout 2000]))"
proof (induction m arbitrary: n es)
  case 0
  then show ?case by simp
next
  case (Suc m)
  from Suc.prems have w: "waiting (answers n)" by (metis add.right_neutral zero_less_Suc)
  from Suc.prems have r: "\<forall>k<m. waiting (answers (Suc n + k))"
    by (metis Suc_less_eq add_Suc_shift)
  have "poll_while uid answers n st es =
        poll_while uid answers (Suc n) st (es @ [Fetch (GET (status_url uid)), SetTimeout 2000])"
    by (rule poll_while_waiting[where answers = answers and n = n, OF w])
  also have "\<dots> = poll_while uid answers (Suc n + m) st
       ((es @ [Fetch (GET (status_url uid)), SetTimeout 2000]) @
         concat (replicate m [Fetch (GET (status_url uid)), SetTimeout 2000]))"
    using r by (rule Suc.IH)
  finally show ?case by simp
qed

lemma poll_while_returns_at_exit:
  assumes a: "poll_while uid answers n st es = Some res"
  shows "\<exists>k\<ge>n. \<not> waiting (answers k)"
proof (rule poll_while.raw_induct[where P = "\<lambda>uid answers n st es res. \<exists>k\<ge>n. \<not> waiting (answers k)", OF _ a])
  fix f :: "jval option \<Rightarrow> (nat \<Rightarrow> fetch_result) \<Rightarrow> nat \<Rightarrow> app \<Rightarrow> effect list
              \<Rightarrow> (app \<times> effect list \<times> outcome) option"
    and uid answers n st es y
  assume IH: "\<And>uid answers n st es y. f uid answers n st es = Some y \<Longrightarrow> \<exists>k\<ge>n. \<not> waiting (answers k)"
  assume body: "(case poll_body (answers n) st of
      (st', Break) \<Rightarrow> Some (st', es @ [Fetch (GET (status_url uid))], Break)
      | (st', Throw msg) \<Rightarrow> Some (st', es @ [Fetch (GET (status_url uid))], Throw msg)
      | (st', Sleep) \<Rightarrow>
          f uid answers (Suc n) st' (es @ [Fetch (GET (status_url uid)), SetTimeout 2000])) = Some y"
  show "\<exists>k\<ge>n. \<not> waiting (answers k)"
  proof (cases "waiting (answers n)")
    case True
    with body have "f uid answers (Suc n) st (es @ [Fetch (GET (status_url uid)), SetTimeout 2000]) = Some y"
      by (simp add: waiting_body)
    from IH[OF this] show ?thesis by (meson Suc_leD)
  next
    case False
    then show ?thesis by blast
  qed
qed

lemma poll_while_never:
  "\<forall>k\<ge>n. waiting (answers k) \<Longrightarrow> poll_while uid answers n st es = None"
  using poll_while_returns_at_exit[of uid answers n st es]
  by (cases "poll_while uid answers n st es") auto

lemma not_waiting_status:
  "\<not> waiting (Resolves True (Inr d)) \<Longrightarrow>
     field ''status'' d = Some (JStr ''completed'') \<or> field ''status'' d = Some (JStr ''failed'')"
  by (auto simp: waiting_def)

lemma poll_while_exit_at:
  assumes "\<forall>k<n. waiting (answers k)" and "\<not> waiting (answers n)"
  shows "poll_while uid answers 0 st [] =
     Some (fst (poll_body (answers n) st),
           concat (replicate n [Fetch (GET (status_url uid)), SetTimeout 2000]) @
             [Fetch (GET (status_url uid))],
           snd (poll_body (answers n) st))"
proof -
  from assms(1) have "\<forall>k<n. waiting (answers (0 + k))" by simp
  from poll_while_rounds[OF this, of uid st "[]"]
  have "poll_while uid answers 0 st [] =
        poll_while uid answers n st
          (concat (replicate n [Fetch (GET (status_url uid)), SetTimeout 2000]))"
    by simp
  also have "\<dots> = Some (fst (poll_body (answers n) st),
           concat (replicate n [Fetch (GET (status_url uid)), SetTimeout 2000]) @
             [Fetch (GET (status_url uid))],
           snd (poll_body (answers n) st))"
    using assms(2) by (rule poll_while_exit)
  finally show ?thesis .
qed

lemma poll_while_exit_only:
  assumes "poll_while uid answers 0 st [] = Some (st', es, oc)"
  shows "\<exists>n. (\<forall>k<n. waiting (answers k)) \<and> \<not> waiting (answers n) \<and>
             st' = fst (poll_body (answers n) st) \<and> oc = snd (poll_body (answers n) st) \<and>
             es = concat (replicate n [Fetch (GET (status_url uid)), SetTimeout 2000]) @
                    [Fetch (GET (status_url uid))]"
proof -
  from poll_while_returns_at_exit[OF assms] obtain k where "\<not> waiting (answers k)" by blast
  define n where "n = (LEAST k. \<not> waiting (answers k))"
  have stop: "\<not> waiting (answers n)"
    unfolding n_def by (rule LeastI[of "\<lambda>k. \<not> waiting (answers k)", OF \<open>\<not> waiting (answers k)\<close>])
  have before: "\<forall>k<n. waiting (answers k)"
    unfolding n_def using not_less_Least by blast
  from poll_while_exit_at[OF before stop, of uid st] assms before stop show ?thesis
    by auto
qed

text \<open>
  The running component follows the loop: when the answers of the first \<open>n\<close> passes
  are non-terminal, it reaches the answer of pass \<open>n\<close> with the same state, having
  set \<open>n\<close> timers, and continues with the rest of \<^verbatim>\<open>pollStatus\<close>.
\<close>

lemma machine_follows_loop:
  assumes p: "pending c = AwaitStatus uid"
    and w: "\<forall>k<n. waiting (answers k)"
  shows "run (poll_events (map answers [0..<n]) @ [StatusSettled (answers n)]) c =
           settle (c\<lparr>log := log c @
                      concat (replicate n [SetTimeout 2000, Fetch (GET (status_url uid))])\<rparr>)
                  (pollStatus_resume uid (answers n) (ui c))"
proof -
  from w have "list_all waiting (map answers [0..<n])"
    by (simp add: list_all_iff)
  from run_waiting[OF p this]
  have "run (poll_events (map answers [0..<n])) c =
          c\<lparr>log := log c @ concat (replicate n [SetTimeout 2000, Fetch (GET (status_url uid))])\<rparr>"
    by simp
  with p show ?thesis by (simp add: run_append)
qed

lemma waiting_answer: "s \<noteq> ''completed'' \<Longrightarrow> s \<noteq> ''failed'' \<Longrightarrow> waiting (answer s)"
  by (simp add: waiting_def answer_def field_def)

text \<open>
  Claim C2. For every identifier \<open>uid\<close> the loop of \<^verbatim>\<open>pollStatus\<close> queries the status of
  \<open>uid\<close>, and after an answer whose status is not terminal it waits 2000 ms before it
  queries again. If the first answer that is not of this kind is the one of pass
  \<open>n\<close>, the loop is left in pass \<open>n\<close>, after \<open>n\<close> waits. If every answer is of this
  kind the loop is never left. Whenever the loop is left, it is left at an answer
  that is not of this kind, and if that answer carried a status, the status is
  completed or failed. The same holds step by step for the running component, where
  only the timer releases the next request: after any number of non-terminal
  answers it is still polling. On a completed answer the explanations cell receives
  the snapshot's summaries, on a failed answer the error cell receives its message,
  and in both cases \<^verbatim>\<open>loading\<close> is switched off.
\<close>

theorem polling_loop:
  assumes p: "pending c = AwaitStatus uid"
  shows
   "((\<forall>k<n. waiting (answers k)) \<and> \<not> waiting (answers n) \<longrightarrow>
       poll_while uid answers 0 st [] =
         Some (fst (poll_body (answers n) st),
               concat (replicate n [Fetch (GET (status_url uid)), SetTimeout 2000]) @
                 [Fetch (GET (status_url uid))],
               snd (poll_body (answers n) st))) \<and>
    ((\<forall>k. waiting (forever k)) \<longrightarrow> poll_while uid forever 0 st [] = None) \<and>
    (\<forall>st' es oc. poll_while uid answers 0 st [] = Some (st', es, oc) \<longrightarrow>
       (\<exists>m. (\<forall>k<m. waiting (answers k)) \<and> \<not> waiting (answers m) \<and>
            st' = fst (poll_body (answers m) st) \<and> oc = snd (poll_body (answers m) st) \<and>
            es = concat (replicate m [Fetch (GET (status_url uid)), SetTimeout 2000]) @
                   [Fetch (GET (status_url uid))] \<and>
            (\<forall>d. answers m = Resolves True (Inr d) \<longrightarrow>
                 field ''status'' d = Some (JStr ''completed'') \<or>
                 field ''status'' d = Some (JStr ''failed'')))) \<and>
    (waiting r \<longrightarrow>
       step (StatusSettled r) c = c\<lparr>pending := AwaitTimer uid, log := log c @ [SetTimeout 2000]\<rparr> \<and>
       step TimerFired (step (StatusSettled r) c) =
         c\<lparr>log := log c @ [SetTimeout 2000, Fetch (GET (status_url uid))]\<rparr>) \<and>
    (list_all waiting rs \<longrightarrow>
       run (poll_events rs) c =
         c\<lparr>log := log c @
              concat (replicate (length rs) [SetTimeout 2000, Fetch (GET (status_url uid))])\<rparr>) \<and>
    (\<not> waiting q \<longrightarrow>
       pending (step (StatusSettled q) c) = Idle \<and> log (step (StatusSettled q) c) = log c) \<and>
    (field ''status'' done = Some (JStr ''completed'') \<longrightarrow>
       step (StatusSettled (Resolves True (Inr done))) c =
         c\<lparr>ui := (ui c)\<lparr>statusText := [CHR 0xE2, CHR 0x9C, CHR 0xA8] @ '' Processing completed successfully!'',
                         explanations := js_or (field ''explanation'' done) (JArr []),
                         error := JStr [], loading := False\<rparr>,
           pending := Idle\<rparr>) \<and>
    (field ''status'' bad = Some (JStr ''failed'') \<longrightarrow>
       step (StatusSettled (Resolves True (Inr bad))) c =
         c\<lparr>ui := (ui c)\<lparr>error := js_or (field ''error_message'' bad) (JStr ''Processing failed''),
                         statusText := [], loading := False\<rparr>,
           pending := Idle\<rparr>)"
proof -
  have never: "poll_while uid forever 0 st [] = None" if "\<forall>k. waiting (forever k)"
    using that by (intro poll_while_never) simp
  have only: "\<exists>m. (\<forall>k<m. waiting (answers k)) \<and> \<not> waiting (answers m) \<and>
            st' = fst (poll_body (answers m) st) \<and> oc = snd (poll_body (answers m) st) \<and>
            es = concat (replicate m [Fetch (GET (status_url uid)), SetTimeout 2000]) @
                   [Fetch (GET (status_url uid))] \<and>
            (\<forall>d. answers m = Resolves True (Inr d) \<longrightarrow>
                 field ''status'' d = Some (JStr ''completed'') \<or>
                 field ''status'' d = Some (JStr ''failed''))"
    if "poll_while uid answers 0 st [] = Some (st', es, oc)" for st' es oc
  proof -
    from poll_while_exit_only[OF that] obtain m where
      m: "\<forall>k<m. waiting (answers k)" "\<not> waiting (answers m)"
         "st' = fst (poll_body (answers m) st)" "oc = snd (poll_body (answers m) st)"
         "es = concat (replicate m [Fetch (GET (status_url uid)), SetTimeout 2000]) @
                 [Fetch (GET (status_url uid))]"
      by blast
    from m(2) not_waiting_status
    have "\<forall>d. answers m = Resolves True (Inr d) \<longrightarrow>
                 field ''status'' d = Some (JStr ''completed'') \<or>
                 field ''status'' d = Some (JStr ''failed'')"
      by metis
    with m show ?thesis by blast
  qed
  show ?thesis
    using poll_while_exit_at[of n answers uid st] never only
      step_waiting[OF p, of r] round_waiting[OF p, of r]
      run_waiting[OF p, of rs] step_not_waiting[OF p, of q]
      step_completed[OF p, of "done"] step_failed[OF p, of bad]
    by blast
qed

text \<open>
  The claim at a component that polls for \<^verbatim>\<open>u1\<close>. With three answers "processing"
  followed by the completed snapshot the loop is left in the fourth pass, after
  three waits of 2000 ms, with the snapshot's slide; with "processing" for ever it is
  never left. Step by step: three non-terminal answers leave the component polling,
  a completed answer hands over the slide, a failed one the message, and a non-OK
  answer ends the loop as well.
\<close>

theorem polling_loop_witness:
  "pending polling_u1 = AwaitStatus (Some (JStr ''u1'')) \<and>
   waiting (three_then_completed 0) \<and> waiting (three_then_completed 1) \<and>
   waiting (three_then_completed 2) \<and> \<not> waiting (three_then_completed 3) \<and>
   (\<forall>k. waiting (always_processing k)) \<and>
   waiting (answer ''processing'') \<and>
   list_all waiting [answer ''uploaded'', answer ''processing'', answer ''processing''] \<and>
   \<not> waiting (Resolves False (Inl [])) \<and>
   field ''status'' completed_snapshot = Some (JStr ''completed'') \<and>
   field ''status'' failed_snapshot = Some (JStr ''failed'') \<and>
   poll_while (Some (JStr ''u1'')) three_then_completed 0 (ui polling_u1) [] =
     Some ((ui polling_u1)\<lparr>statusText := [CHR 0xE2, CHR 0x9C, CHR 0xA8] @ '' Processing completed successfully!'',
                            explanations := JArr [slide_a], error := JStr []\<rparr>,
           [Fetch (GET ''https://slidesummarizer-backend.onrender.com/status/u1''), SetTimeout 2000,
            Fetch (GET ''https://slidesummarizer-backend.onrender.com/status/u1''), SetTimeout 2000,
            Fetch (GET ''https://slidesummarizer-backend.onrender.com/status/u1''), SetTimeout 2000,
            Fetch (GET ''https://slidesummarizer-backend.onrender.com/status/u1'')],
           Break) \<and>
   poll_while (Some (JStr ''u1'')) always_processing 0 (ui polling_u1) [] = None \<and>
   pending (step (StatusSettled (answer ''processing'')) polling_u1) = AwaitTimer (Some (JStr ''u1'')) \<and>
   run (poll_events [answer ''uploaded'', answer ''processing'', answer ''processing'']) polling_u1 =
     polling_u1\<lparr>log :=
       [SetTimeout 2000, Fetch (GET ''https://slidesummarizer-backend.onrender.com/status/u1''),
        SetTimeout 2000, Fetch (GET ''https://slidesummarizer-backend.onrender.com/status/u1''),
        SetTimeout 2000, Fetch (GET ''https://slidesummarizer-backend.onrender.com/status/u1'')]\<rparr> \<and>
   pending (step (StatusSettled (Resolves False (Inl []))) polling_u1) = Idle \<and>
   pending (step (StatusSettled (Resolves True (Inr completed_snapshot))) polling_u1) = Idle \<and>
   explanations (ui (step (StatusSettled (Resolves True (Inr completed_snapshot))) polling_u1)) =
     JArr [slide_a] \<and>
   error (ui (step (StatusSettled (Resolves True (Inr failed_snapshot))) polling_u1)) =
     JStr ''Could not parse file''"
proof -
  have p: "pending polling_u1 = AwaitStatus (Some (JStr ''u1''))"
    by (simp add: polling_u1_def)
  have w: "waiting (answer ''processing'')"
    by (simp add: waiting_answer)
  have ws: "list_all waiting [answer ''uploaded'', answer ''processing'', answer ''processing'']"
    by (simp add: waiting_answer)
  have n: "\<not> waiting (Resolves False (Inl []))"
    by (simp add: waiting_def)
  have cs: "field ''status'' completed_snapshot = Some (JStr ''completed'')"
    by (simp add: completed_snapshot_def field_def)
  have fs: "field ''status'' failed_snapshot = Some (JStr ''failed'')"
    by (simp add: failed_snapshot_def field_def)
  have w0: "waiting (three_then_completed 0)" and w1: "waiting (three_then_completed 1)"
    and w2: "waiting (three_then_completed 2)"
    by (simp_all add: three_then_completed_def w)
  have w3: "\<forall>k<3. waiting (three_then_completed k)"
  proof (intro allI impI)
    fix k :: nat assume "k < 3"
    then have "k = 0 \<or> k = 1 \<or> k = 2" by arith
    with w0 w1 w2 show "waiting (three_then_completed k)" by blast
  qed
  have n3: "\<not> waiting (three_then_completed 3)"
    by (simp add: three_then_completed_def waiting_def cs)
  have wa: "\<forall>k. waiting (always_processing k)"
    by (simp add: always_processing_def w)
  have u: "status_url (Some (JStr ''u1'')) = ''https://slidesummarizer-backend.onrender.com/status/u1''"
    by (simp add: status_url_def API_URL_def)
  have e: "js_or (field ''explanation'' completed_snapshot) (JArr []) = JArr [slide_a]"
    by (simp add: completed_snapshot_def field_def js_or_def)
  have m: "js_or (field ''error_message'' failed_snapshot) (JStr ''Processing failed'') =
             JStr ''Could not parse file''"
    by (simp add: failed_snapshot_def field_def js_or_def)
  have lg: "log polling_u1 = []" by (simp add: polling_u1_def)
  have b3: "poll_body (three_then_completed 3) (ui polling_u1) =
      ((ui polling_u1)\<lparr>statusText := [CHR 0xE2, CHR 0x9C, CHR 0xA8] @ '' Processing completed successfully!'',
                       explanations := JArr [slide_a], error := JStr []\<rparr>, Break)"
    by (simp add: three_then_completed_def poll_body_completed[OF cs] e)
  note T = polling_loop[OF p, where n = 3 and answers = three_then_completed
      and forever = always_processing and st = "ui polling_u1"
      and r = "answer ''processing''"
      and rs = "[answer ''uploaded'', answer ''processing'', answer ''processing'']"
      and q = "Resolves False (Inl [])" and ?done = completed_snapshot and bad = failed_snapshot]
  from T w3 n3 have "poll_while (Some (JStr ''u1'')) three_then_completed 0 (ui polling_u1) [] =
      Some (fst (poll_body (three_then_completed 3) (ui polling_u1)),
            concat (replicate 3 [Fetch (GET (status_url (Some (JStr ''u1'')))), SetTimeout 2000]) @
              [Fetch (GET (status_url (Some (JStr ''u1''))))],
            snd (poll_body (three_then_completed 3) (ui polling_u1)))"
    by blast
  then have c0: "poll_while (Some (JStr ''u1'')) three_then_completed 0 (ui polling_u1) [] =
     Some ((ui polling_u1)\<lparr>statusText := [CHR 0xE2, CHR 0x9C, CHR 0xA8] @ '' Processing completed successfully!'',
                            explanations := JArr [slide_a], error := JStr []\<rparr>,
           [Fetch (GET ''https://slidesummarizer-backend.onrender.com/status/u1''), SetTimeout 2000,
            Fetch (GET ''https://slidesummarizer-backend.onrender.com/status/u1''), SetTimeout 2000,
            Fetch (GET ''https://slidesummarizer-backend.onrender.com/status/u1''), SetTimeout 2000,
            Fetch (GET ''https://slidesummarizer-backend.onrender.com/status/u1'')],
           Break)"
    unfolding u b3 by (simp add: numeral_3_eq_3)
  from T wa have c1: "poll_while (Some (JStr ''u1'')) always_processing 0 (ui polling_u1) [] = None"
    by blast
  from T w have "step (StatusSettled (answer ''processing'')) polling_u1 =
      polling_u1\<lparr>pending := AwaitTimer (Some (JStr ''u1'')), log := log polling_u1 @ [SetTimeout 2000]\<rparr>"
    by blast
  then have c2: "pending (step (StatusSettled (answer ''processing'')) polling_u1) =
      AwaitTimer (Some (JStr ''u1''))"
    by simp
  from T ws have "run (poll_events [answer ''uploaded'', answer ''processing'', answer ''processing''])
      polling_u1 =
     polling_u1\<lparr>log := log polling_u1 @
        concat (replicate (length [answer ''uploaded'', answer ''processing'', answer ''processing''])
          [SetTimeout 2000, Fetch (GET (status_url (Some (JStr ''u1''))))])\<rparr>"
    by blast
  then have c3: "run (poll_events [answer ''uploaded'', answer ''processing'', answer ''processing''])
      polling_u1 =
     polling_u1\<lparr>log :=
       [SetTimeout 2000, Fetch (GET ''https://slidesummarizer-backend.onrender.com/status/u1''),
        SetTimeout 2000, Fetch (GET ''https://slidesummarizer-backend.onrender.com/status/u1''),
        SetTimeout 2000, Fetch (GET ''https://slidesummarizer-backend.onrender.com/status/u1'')]\<rparr>"
    unfolding u lg by (simp add: numeral_3_eq_3)
  from T n have c4: "pending (step (StatusSettled (Resolves False (Inl []))) polling_u1) = Idle"
    by blast
  from T cs have c5: "step (StatusSettled (Resolves True (Inr completed_snapshot))) polling_u1 =
         polling_u1\<lparr>ui := (ui polling_u1)\<lparr>statusText := [CHR 0xE2, CHR 0x9C, CHR 0xA8] @ '' Processing completed successfully!'',
                         explanations := js_or (field ''explanation'' completed_snapshot) (JArr []),
                         error := JStr [], loading := False\<rparr>,
           pending := Idle\<rparr>"
    by blast
  from T fs have c6: "step (StatusSettled (Resolves True (Inr failed_snapshot))) polling_u1 =
         polling_u1\<lparr>ui := (ui polling_u1)\<lparr>error := js_or (field ''error_message'' failed_snapshot) (JStr ''Processing failed''),
                         statusText := [], loading := False\<rparr>,
           pending := Idle\<rparr>"
    by blast
  have c7: "pending (step (StatusSettled (Resolves True (Inr completed_snapshot))) polling_u1) = Idle"
    unfolding c5 by simp
  have c8: "explanations (ui (step (StatusSettled (Resolves True (Inr completed_snapshot))) polling_u1)) =
     JArr [slide_a]"
    unfolding c5 by (simp add: e)
  have c9: "error (ui (step (StatusSettled (Resolves True (Inr failed_snapshot))) polling_u1)) =
     JStr ''Could not parse file''"
    unfolding c6 by (simp add: m)
  from p w0 w1 w2 n3 wa w ws n cs fs c0 c1 c2 c3 c4 c7 c8 c9 show ?thesis
    by (intro conjI)
qed

subsection \<open>A failed job and a failed query\<close>

text \<open>
  Claim C3. When a status answer reports a job as failed, the loop body stores the
  job's \<^verbatim>\<open>error_message\<close> in the error cell (the text "Processing failed" when the
  message is absent, null or empty), clears the status text and leaves the loop by
  \<^verbatim>\<open>break\<close>, exactly as it leaves it for a completed job: nothing is thrown, the
  \<^verbatim>\<open>catch\<close> block does not run, and \<^verbatim>\<open>pollStatus\<close> finishes normally.
\<close>

theorem failed_job_surfaces_message:
  assumes "field ''status'' data = Some (JStr ''failed'')"
  shows
   "poll_body (Resolves True (Inr data)) st =
      (st\<lparr>error := js_or (field ''error_message'' data) (JStr ''Processing failed''),
          statusText := []\<rparr>, Break) \<and>
    pollStatus_resume uid (Resolves True (Inr data)) st =
      (st\<lparr>error := js_or (field ''error_message'' data) (JStr ''Processing failed''),
          statusText := [], loading := False\<rparr>, [], Done) \<and>
    (\<forall>m. field ''error_message'' data = Some m \<and> truthy m \<longrightarrow>
         error (fst (pollStatus_resume uid (Resolves True (Inr data)) st)) = m) \<and>
    (\<forall>d. field ''status'' d = Some (JStr ''completed'') \<longrightarrow>
         snd (poll_body (Resolves True (Inr d)) st) = snd (poll_body (Resolves True (Inr data)) st) \<and>
         snd (snd (pollStatus_resume uid (Resolves True (Inr d)) st)) =
         snd (snd (pollStatus_resume uid (Resolves True (Inr data)) st)))"
proof -
  let ?st' = "st\<lparr>error := js_or (field ''error_message'' data) (JStr ''Processing failed''),
                 statusText := []\<rparr>"
  have body: "poll_body (Resolves True (Inr data)) st = (?st', Break)"
    by (rule poll_body_failed[OF assms])
  have resume: "pollStatus_resume uid (Resolves True (Inr data)) st =
      (?st'\<lparr>loading := False\<rparr>, [], Done)"
    by (rule pollStatus_resume_break[OF body])
  have message: "error (fst (pollStatus_resume uid (Resolves True (Inr data)) st)) = m"
    if "field ''error_message'' data = Some m \<and> truthy m" for m
    using that by (simp add: resume js_or_def)
  have same_exit:
    "snd (poll_body (Resolves True (Inr d)) st) = snd (poll_body (Resolves True (Inr data)) st) \<and>
     snd (snd (pollStatus_resume uid (Resolves True (Inr d)) st)) =
     snd (snd (pollStatus_resume uid (Resolves True (Inr data)) st))"
    if "field ''status'' d = Some (JStr ''completed'')" for d
    by (simp add: pollStatus_resume_break[OF poll_body_completed[OF that]]
                  poll_body_completed[OF that] body resume)
  from body resume message same_exit show ?thesis by simp
qed

theorem failed_job_surfaces_message_witness:
  "field ''status'' failed_snapshot = Some (JStr ''failed'') \<and>
   field ''error_message'' failed_snapshot = Some (JStr ''Could not parse file'') \<and>
   truthy (JStr ''Could not parse file'') \<and>
   field ''status'' completed_snapshot = Some (JStr ''completed'') \<and>
   snd (poll_body (Resolves True (Inr failed_snapshot)) (ui polling_u1)) = Break \<and>
   snd (poll_body (Resolves True (Inr completed_snapshot)) (ui polling_u1)) = Break \<and>
   snd (snd (pollStatus_resume None (Resolves True (Inr failed_snapshot)) (ui polling_u1))) = Done \<and>
   error (fst (pollStatus_resume None (Resolves True (Inr failed_snapshot)) (ui polling_u1))) =
     JStr ''Could not parse file''"
proof -
  have fs: "field ''status'' failed_snapshot = Some (JStr ''failed'')"
    by (simp add: failed_snapshot_def field_def)
  have fm: "field ''error_message'' failed_snapshot = Some (JStr ''Could not parse file'')"
    by (simp add: failed_snapshot_def field_def)
  have t: "truthy (JStr ''Could not parse file'')" by simp
  have cs: "field ''status'' completed_snapshot = Some (JStr ''completed'')"
    by (simp add: completed_snapshot_def field_def)
  note T = failed_job_surfaces_message[OF fs, of "ui polling_u1" None]
  from T have b: "snd (poll_body (Resolves True (Inr failed_snapshot)) (ui polling_u1)) = Break"
    by simp
  from T cs b have c: "snd (poll_body (Resolves True (Inr completed_snapshot)) (ui polling_u1)) = Break"
    by metis
  from T have d: "snd (snd (pollStatus_resume None (Resolves True (Inr failed_snapshot)) (ui polling_u1))) = Done"
    by simp
  from T fm t have e: "error (fst (pollStatus_resume None (Resolves True (Inr failed_snapshot)) (ui polling_u1))) =
     JStr ''Could not parse file''"
    by blast
  from fs fm t cs b c d e show ?thesis by (intro conjI)
qed

text \<open>
  Claim C5 as stated says that a failed status query propagates to the caller of
  the poller as an explicit failure and is distinguished from a failed job. It fails:
  the error thrown for a non-OK answer is caught inside \<^verbatim>\<open>pollStatus\<close> (lines 116-118),
  which then finishes normally, and a failed job that carries the same text leaves
  the component in exactly the same state.
\<close>

theorem status_query_failure_counterexample:
  "snd (snd (pollStatus_resume (Some (JStr ''u1'')) (Resolves False (Inl [])) (ui polling_u1))) = Done \<and>
   pollStatus_resume (Some (JStr ''u1'')) (Resolves False (Inl [])) (ui polling_u1) =
   pollStatus_resume (Some (JStr ''u1'')) (Resolves True (Inr same_text_snapshot)) (ui polling_u1) \<and>
   step (StatusSettled (Resolves False (Inl []))) polling_u1 =
   step (StatusSettled (Resolves True (Inr same_text_snapshot))) polling_u1"
proof -
  have f: "field ''status'' same_text_snapshot = Some (JStr ''failed'')"
    by (simp add: same_text_snapshot_def field_def)
  have m: "js_or (field ''error_message'' same_text_snapshot) (JStr ''Processing failed'') =
             JStr ''Server error while checking status''"
    by (simp add: same_text_snapshot_def field_def js_or_def)
  have a: "pollStatus_resume (Some (JStr ''u1'')) (Resolves False (Inl [])) (ui polling_u1) =
      ((ui polling_u1)\<lparr>error := JStr ''Server error while checking status'', statusText := [],
                        loading := False\<rparr>, [], Done)"
    by (simp add: pollStatus_resume_throw[OF poll_body_not_ok] message_or_def)
  have b: "pollStatus_resume (Some (JStr ''u1'')) (Resolves True (Inr same_text_snapshot)) (ui polling_u1) =
      ((ui polling_u1)\<lparr>error := JStr ''Server error while checking status'', statusText := [],
                        loading := False\<rparr>, [], Done)"
    by (simp add: pollStatus_resume_break[OF poll_body_failed[OF f]] m)
  have p: "pending polling_u1 = AwaitStatus (Some (JStr ''u1''))"
    by (simp add: polling_u1_def)
  have s: "step (StatusSettled (Resolves False (Inl []))) polling_u1 =
           step (StatusSettled (Resolves True (Inr same_text_snapshot))) polling_u1"
    unfolding step_status_done[OF p a] step_status_done[OF p b] ..
  from a b s show ?thesis by simp
qed

text \<open>
  Claim C5, as amended. A status request answered with a non-OK response ends the
  polling loop with an error: the loop body throws "Server error while checking
  status", no timer is set and no further request is sent. \<^verbatim>\<open>pollStatus\<close> catches the
  error itself, stores that text in the error cell, clears the status text and
  switches \<^verbatim>\<open>loading\<close> off. Nothing is raised to the caller: whatever the answer,
  \<^verbatim>\<open>pollStatus\<close> finishes normally, so a failed query reaches the caller as an error
  text in the state, as a failed job does. Inside the loop the two take different
  ways out, \<^verbatim>\<open>throw\<close> and \<^verbatim>\<open>break\<close>; in the resulting state they differ in the error
  text only.
\<close>

theorem status_query_failure_ends_polling:
  "poll_body (Resolves False body) st = (st, Throw ''Server error while checking status'') \<and>
   pollStatus_resume uid (Resolves False body) st =
     (st\<lparr>error := JStr ''Server error while checking status'', statusText := [],
         loading := False\<rparr>, [], Done) \<and>
   (pending c = AwaitStatus uid \<longrightarrow>
      step (StatusSettled (Resolves False body)) c =
        c\<lparr>ui := (ui c)\<lparr>error := JStr ''Server error while checking status'', statusText := [],
                        loading := False\<rparr>,
          pending := Idle\<rparr>) \<and>
   (\<forall>r msg. snd (snd (pollStatus_resume uid r st)) \<noteq> Threw msg) \<and>
   (field ''status'' data = Some (JStr ''failed'') \<longrightarrow>
      snd (poll_body (Resolves True (Inr data)) st) = Break \<and>
      snd (poll_body (Resolves True (Inr data)) st) \<noteq> snd (poll_body (Resolves False body) st) \<and>
      pollStatus_resume uid (Resolves True (Inr data)) st =
        ((fst (pollStatus_resume uid (Resolves False body) st))
           \<lparr>error := js_or (field ''error_message'' data) (JStr ''Processing failed'')\<rparr>,
         [], Done))"
proof -
  have resume: "pollStatus_resume u (Resolves False body) s =
     (s\<lparr>error := JStr ''Server error while checking status'', statusText := [],
        loading := False\<rparr>, [], Done)" for u s
    by (simp add: pollStatus_resume_throw[OF poll_body_not_ok] message_or_def)
  have ends: "step (StatusSettled (Resolves False body)) c =
        c\<lparr>ui := (ui c)\<lparr>error := JStr ''Server error while checking status'', statusText := [],
                        loading := False\<rparr>,
          pending := Idle\<rparr>"
    if "pending c = AwaitStatus uid"
    by (rule step_status_done[OF that resume])
  have caught: "snd (snd (pollStatus_resume uid r st)) \<noteq> Threw msg" for r msg
    by (cases "poll_body r st"; cases "snd (poll_body r st)")
       (simp_all add: pollStatus_resume_def)
  have other: "snd (poll_body (Resolves True (Inr data)) st) = Break \<and>
      snd (poll_body (Resolves True (Inr data)) st) \<noteq> snd (poll_body (Resolves False body) st) \<and>
      pollStatus_resume uid (Resolves True (Inr data)) st =
        ((fst (pollStatus_resume uid (Resolves False body) st))
           \<lparr>error := js_or (field ''error_message'' data) (JStr ''Processing failed'')\<rparr>,
         [], Done)"
    if "field ''status'' data = Some (JStr ''failed'')"
    by (simp add: poll_body_failed[OF that] poll_body_not_ok resume
                  pollStatus_resume_break[OF poll_body_failed[OF that]])
  from poll_body_not_ok[of body st] resume[of uid st] ends caught other show ?thesis by blast
qed

text \<open>
  The claim at a component that polls for \<^verbatim>\<open>u1\<close> and receives a non-OK answer, beside
  a failed job with a message of its own.
\<close>

theorem status_query_failure_ends_polling_witness:
  "pending polling_u1 = AwaitStatus (Some (JStr ''u1'')) \<and>
   field ''status'' failed_snapshot = Some (JStr ''failed'') \<and>
   step (StatusSettled (Resolves False (Inr [(''error'', JStr ''Upload not found'')]))) polling_u1 =
     polling_u1\<lparr>ui := (ui polling_u1)\<lparr>error := JStr ''Server error while checking status'',
                                       statusText := [], loading := False\<rparr>,
                pending := Idle\<rparr> \<and>
   snd (poll_body (Resolves False (Inr [(''error'', JStr ''Upload not found'')])) (ui polling_u1)) =
     Throw ''Server error while checking status'' \<and>
   snd (snd (pollStatus_resume (Some (JStr ''u1''))
               (Resolves False (Inr [(''error'', JStr ''Upload not found'')])) (ui polling_u1))) \<noteq>
     Threw ''Server error while checking status'' \<and>
   snd (poll_body (Resolves True (Inr failed_snapshot)) (ui polling_u1)) = Break \<and>
   pollStatus_resume (Some (JStr ''u1'')) (Resolves True (Inr failed_snapshot)) (ui polling_u1) =
     ((ui polling_u1)\<lparr>error := JStr ''Could not parse file'', statusText := [],
                       loading := False\<rparr>, [], Done)"
proof -
  have p: "pending polling_u1 = AwaitStatus (Some (JStr ''u1''))"
    by (simp add: polling_u1_def)
  have fs: "field ''status'' failed_snapshot = Some (JStr ''failed'')"
    by (simp add: failed_snapshot_def field_def)
  have m: "js_or (field ''error_message'' failed_snapshot) (JStr ''Processing failed'') =
             JStr ''Could not parse file''"
    by (simp add: failed_snapshot_def field_def js_or_def)
  note T = status_query_failure_ends_polling
             [where body = "Inr [(''error'', JStr ''Upload not found'')]" and st = "ui polling_u1"
                and uid = "Some (JStr ''u1'')" and c = polling_u1 and data = failed_snapshot]
  from T p have a: "step (StatusSettled (Resolves False (Inr [(''error'', JStr ''Upload not found'')]))) polling_u1 =
     polling_u1\<lparr>ui := (ui polling_u1)\<lparr>error := JStr ''Server error while checking status'',
                                       statusText := [], loading := False\<rparr>,
                pending := Idle\<rparr>"
    by blast
  from T have b: "snd (poll_body (Resolves False (Inr [(''error'', JStr ''Upload not found'')])) (ui polling_u1)) =
     Throw ''Server error while checking status''"
    by simp
  from T have n: "snd (snd (pollStatus_resume (Some (JStr ''u1''))
               (Resolves False (Inr [(''error'', JStr ''Upload not found'')])) (ui polling_u1))) \<noteq>
     Threw ''Server error while checking status''"
    by blast
  from T fs have c: "snd (poll_body (Resolves True (Inr failed_snapshot)) (ui polling_u1)) = Break"
    by blast
  from T have r: "pollStatus_resume (Some (JStr ''u1''))
        (Resolves False (Inr [(''error'', JStr ''Upload not found'')])) (ui polling_u1) =
     ((ui polling_u1)\<lparr>error := JStr ''Server error while checking status'', statusText := [],
         loading := False\<rparr>, [], Done)"
    by blast
  from T fs have "pollStatus_resume (Some (JStr ''u1'')) (Resolves True (Inr failed_snapshot)) (ui polling_u1) =
        ((fst (pollStatus_resume (Some (JStr ''u1''))
                 (Resolves False (Inr [(''error'', JStr ''Upload not found'')])) (ui polling_u1)))
           \<lparr>error := js_or (field ''error_message'' failed_snapshot) (JStr ''Processing failed'')\<rparr>,
         [], Done)"
    by blast
  then have d: "pollStatus_resume (Some (JStr ''u1'')) (Resolves True (Inr failed_snapshot)) (ui polling_u1) =
     ((ui polling_u1)\<lparr>error := JStr ''Could not parse file'', statusText := [],
                       loading := False\<rparr>, [], Done)"
    unfolding r m by simp
  from p fs a b n c d show ?thesis by (intro conjI)
qed

subsection \<open>The answers of the two endpoints\<close>

text \<open>
  Claim C6 as stated names the field \<^verbatim>\<open>id\<close>. It fails for an upload answered with a
  record that carries the identifier under \<^verbatim>\<open>id\<close>: the client reads
  \<^verbatim>\<open>uid\<close>, finds nothing, and polls the status of "undefined" rather than of the job.
\<close>

theorem intake_reply_id_field_counterexample:
  "snd (uploadFile_resume ''comprehensive'' (Resolves True (Inr [(''id'', JStr ''abc'')])) initial) =
     ([Fetch (GET ''https://slidesummarizer-backend.onrender.com/status/undefined'')],
      Pending (AwaitStatus None)) \<and>
   uploadUid (fst (uploadFile_resume ''comprehensive''
                     (Resolves True (Inr [(''id'', JStr ''abc'')])) initial)) = None \<and>
   snd (uploadFile_resume ''comprehensive'' (Resolves True (Inr [(''id'', JStr ''abc'')])) initial) \<noteq>
     ([Fetch (GET ''https://slidesummarizer-backend.onrender.com/status/abc'')],
      Pending (AwaitStatus (Some (JStr ''abc''))))"
  by (simp add: uploadFile_resume_def upload_try_def pollStatus_def Let_def field_def
       status_url_def API_URL_def SUMMARY_LEVELS_def initial_def)

text \<open>
  Claim C6, as amended. The client submits the form fields \<^verbatim>\<open>file\<close>, \<^verbatim>\<open>email\<close>,
  \<^verbatim>\<open>summary_level\<close> and \<^verbatim>\<open>language\<close>. On an OK answer it takes the job identifier from
  the field \<^verbatim>\<open>uid\<close> of the returned record and from no other field, stores it as the
  upload identifier and polls the status of that identifier. On a non-OK answer it
  stores the text of the field \<^verbatim>\<open>error\<close> of the returned body in the error cell
  ("Upload failed" when the body does not parse or has no such text), clears the
  status text and stops loading.
\<close>

theorem intake_reply_uid_field:
  assumes "level \<in> set (map fst SUMMARY_LEVELS)"
  shows
   "(\<exists>st'. uploadFile_resume level (Resolves True (Inr data)) st =
             (st', [Fetch (GET (status_url (field ''uid'' data)))],
              Pending (AwaitStatus (field ''uid'' data))) \<and>
           uploadUid st' = field ''uid'' data \<and> error st' = error st) \<and>
    (field ''uid'' data' = field ''uid'' data \<longrightarrow>
       uploadFile_resume level (Resolves True (Inr data')) st =
       uploadFile_resume level (Resolves True (Inr data)) st) \<and>
    uploadFile_resume level (Resolves False body) st =
      (st\<lparr>error := JStr (message_or
                 (String_js (Some (js_or (field ''error'' (case body of Inl _ \<Rightarrow> [] | Inr b \<Rightarrow> b))
                                         (JStr ''Upload failed''))))
                 ''Upload failed''),
          statusText := [], loading := False\<rparr>, [], Done) \<and>
    (\<forall>b msg. body = Inr b \<and> field ''error'' b = Some (JStr msg) \<and> msg \<noteq> [] \<longrightarrow>
       error (fst (uploadFile_resume level (Resolves False body) st)) = JStr msg) \<and>
    map fst (formData f l g) = [''file'', ''email'', ''summary_level'', ''language'']"
  using assms
  by (auto simp: uploadFile_resume_def upload_try_def pollStatus_def Let_def js_or_def message_or_def
        formData_def SUMMARY_LEVELS_def split: sum.splits)

theorem intake_reply_uid_field_witness:
  "''executive'' \<in> set (map fst SUMMARY_LEVELS) \<and>
   field ''uid'' [(''uid'', JStr ''u1'')] = field ''uid'' [(''id'', JStr ''abc''), (''uid'', JStr ''u1'')] \<and>
   field ''error'' [(''error'', JStr ''Invalid file type'')] = Some (JStr ''Invalid file type'') \<and>
   snd (uploadFile_resume ''executive''
          (Resolves True (Inr [(''id'', JStr ''abc''), (''uid'', JStr ''u1'')])) initial) =
     ([Fetch (GET ''https://slidesummarizer-backend.onrender.com/status/u1'')],
      Pending (AwaitStatus (Some (JStr ''u1'')))) \<and>
   uploadFile_resume ''executive'' (Resolves True (Inr [(''uid'', JStr ''u1'')])) initial =
   uploadFile_resume ''executive''
     (Resolves True (Inr [(''id'', JStr ''abc''), (''uid'', JStr ''u1'')])) initial \<and>
   error (fst (uploadFile_resume ''executive''
                 (Resolves False (Inr [(''error'', JStr ''Invalid file type'')])) initial)) =
     JStr ''Invalid file type''"
proof -
  have l: "''executive'' \<in> set (map fst SUMMARY_LEVELS)"
    by (simp add: SUMMARY_LEVELS_def)
  have u: "field ''uid'' [(''uid'', JStr ''u1'')] =
           field ''uid'' [(''id'', JStr ''abc''), (''uid'', JStr ''u1'')]"
    by (simp add: field_def)
  have u1: "field ''uid'' [(''id'', JStr ''abc''), (''uid'', JStr ''u1'')] = Some (JStr ''u1'')"
    by (simp add: field_def)
  have e: "field ''error'' [(''error'', JStr ''Invalid file type'')] = Some (JStr ''Invalid file type'')"
    by (simp add: field_def)
  have url: "status_url (Some (JStr ''u1'')) = ''https://slidesummarizer-backend.onrender.com/status/u1''"
    by (simp add: status_url_def API_URL_def)
  note T = intake_reply_uid_field[OF l, of "[(''id'', JStr ''abc''), (''uid'', JStr ''u1'')]" initial
             "[(''uid'', JStr ''u1'')]" "Inr [(''error'', JStr ''Invalid file type'')]"
             "''deck.pptx''" "''executive''" "''he''"]
  from T obtain st' where "uploadFile_resume ''executive''
          (Resolves True (Inr [(''id'', JStr ''abc''), (''uid'', JStr ''u1'')])) initial =
     (st', [Fetch (GET ''https://slidesummarizer-backend.onrender.com/status/u1'')],
      Pending (AwaitStatus (Some (JStr ''u1''))))"
    unfolding u1 url by blast
  then have a: "snd (uploadFile_resume ''executive''
          (Resolves True (Inr [(''id'', JStr ''abc''), (''uid'', JStr ''u1'')])) initial) =
     ([Fetch (GET ''https://slidesummarizer-backend.onrender.com/status/u1'')],
      Pending (AwaitStatus (Some (JStr ''u1''))))"
    by simp
  from T u have b: "uploadFile_resume ''executive'' (Resolves True (Inr [(''uid'', JStr ''u1'')])) initial =
     uploadFile_resume ''executive''
       (Resolves True (Inr [(''id'', JStr ''abc''), (''uid'', JStr ''u1'')])) initial"
    by blast
  from T e have c: "error (fst (uploadFile_resume ''executive''
                 (Resolves False (Inr [(''error'', JStr ''Invalid file type'')])) initial)) =
     JStr ''Invalid file type''"
    by blast
  from l u e a b c show ?thesis by (intro conjI)
qed

text \<open>
  Claim C7 as stated names the field \<^verbatim>\<open>result\<close>. It fails for a completed snapshot
  that carries its summaries under \<^verbatim>\<open>result\<close>: the client reads
  \<^verbatim>\<open>explanation\<close>, finds nothing, and shows no slide.
\<close>

theorem snapshot_result_field_counterexample:
  "explanations (fst (poll_body (Resolves True (Inr
      [(''status'', JStr ''completed''), (''result'', JArr [slide_a])])) initial)) = JArr [] \<and>
   shown_slides (render (fst (poll_body (Resolves True (Inr
      [(''status'', JStr ''completed''), (''result'', JArr [slide_a])])) initial))) = []"
  by (simp add: poll_body_def field_def js_or_def render_def initial_def)

text \<open>
  Claim C7, as amended. Of the snapshot a status query returns, the client reads
  \<^verbatim>\<open>status\<close>, \<^verbatim>\<open>explanation\<close> and \<^verbatim>\<open>error_message\<close> and nothing else. When the status is
  completed it takes the per-slide summaries from the field \<^verbatim>\<open>explanation\<close> (the empty
  list when that field is absent or null) and shows them; when the status is failed
  it takes the failure explanation from the field \<^verbatim>\<open>error_message\<close>.
\<close>

theorem snapshot_fields_read:
  "(field ''status'' done = Some (JStr ''completed'') \<longrightarrow>
      explanations (fst (poll_body (Resolves True (Inr done)) st)) =
        js_or (field ''explanation'' done) (JArr []) \<and>
      (\<forall>xs. field ''explanation'' done = Some (JArr xs) \<longrightarrow>
         shown_slides (render (fst (poll_body (Resolves True (Inr done)) st))) = xs)) \<and>
   (field ''status'' bad = Some (JStr ''failed'') \<longrightarrow>
      error (fst (poll_body (Resolves True (Inr bad)) st)) =
        js_or (field ''error_message'' bad) (JStr ''Processing failed'')) \<and>
   (field ''status'' data' = field ''status'' data \<and>
    field ''explanation'' data' = field ''explanation'' data \<and>
    field ''error_message'' data' = field ''error_message'' data \<longrightarrow>
      poll_body (Resolves True (Inr data')) st = poll_body (Resolves True (Inr data)) st)"
proof -
  have summaries:
    "explanations (fst (poll_body (Resolves True (Inr done)) st)) =
        js_or (field ''explanation'' done) (JArr []) \<and>
     (\<forall>xs. field ''explanation'' done = Some (JArr xs) \<longrightarrow>
         shown_slides (render (fst (poll_body (Resolves True (Inr done)) st))) = xs)"
    if "field ''status'' done = Some (JStr ''completed'')"
    by (simp add: poll_body_completed[OF that] js_or_def render_def)
  have failure:
    "error (fst (poll_body (Resolves True (Inr bad)) st)) =
        js_or (field ''error_message'' bad) (JStr ''Processing failed'')"
    if "field ''status'' bad = Some (JStr ''failed'')"
    by (simp add: poll_body_failed[OF that])
  have nothing_else:
    "poll_body (Resolves True (Inr data')) st = poll_body (Resolves True (Inr data)) st"
    if "field ''status'' data' = field ''status'' data \<and>
        field ''explanation'' data' = field ''explanation'' data \<and>
        field ''error_message'' data' = field ''error_message'' data"
    using that by (simp add: poll_body_def)
  from summaries failure nothing_else show ?thesis by blast
qed

theorem snapshot_fields_read_witness:
  "field ''status'' completed_snapshot = Some (JStr ''completed'') \<and>
   field ''explanation'' completed_snapshot = Some (JArr [slide_a]) \<and>
   field ''status'' failed_snapshot = Some (JStr ''failed'') \<and>
   shown_slides (render (fst (poll_body (Resolves True (Inr completed_snapshot)) initial))) = [slide_a] \<and>
   error (fst (poll_body (Resolves True (Inr failed_snapshot)) initial)) = JStr ''Could not parse file'' \<and>
   poll_body (Resolves True (Inr ((''result'', JArr []) # completed_snapshot))) initial =
   poll_body (Resolves True (Inr completed_snapshot)) initial"
proof -
  have cs: "field ''status'' completed_snapshot = Some (JStr ''completed'')"
    by (simp add: completed_snapshot_def field_def)
  have ce: "field ''explanation'' completed_snapshot = Some (JArr [slide_a])"
    by (simp add: completed_snapshot_def field_def)
  have fs: "field ''status'' failed_snapshot = Some (JStr ''failed'')"
    by (simp add: failed_snapshot_def field_def)
  have m: "js_or (field ''error_message'' failed_snapshot) (JStr ''Processing failed'') =
             JStr ''Could not parse file''"
    by (simp add: failed_snapshot_def field_def js_or_def)
  have same: "field ''status'' ((''result'', JArr []) # completed_snapshot) = field ''status'' completed_snapshot \<and>
      field ''explanation'' ((''result'', JArr []) # completed_snapshot) = field ''explanation'' completed_snapshot \<and>
      field ''error_message'' ((''result'', JArr []) # completed_snapshot) = field ''error_message'' completed_snapshot"
    by (simp add: field_def)
  note T = snapshot_fields_read[of completed_snapshot initial failed_snapshot
             "(''result'', JArr []) # completed_snapshot" completed_snapshot]
  from T cs ce have a: "shown_slides (render (fst (poll_body (Resolves True (Inr completed_snapshot)) initial))) = [slide_a]"
    by blast
  from T fs have b: "error (fst (poll_body (Resolves True (Inr failed_snapshot)) initial)) = JStr ''Could not parse file''"
    unfolding m[symmetric] by blast
  from T same have c: "poll_body (Resolves True (Inr ((''result'', JArr []) # completed_snapshot))) initial =
      poll_body (Resolves True (Inr completed_snapshot)) initial"
    by blast
  from cs ce fs a b c show ?thesis by (intro conjI)
qed

subsection \<open>Choosing a file\<close>

text \<open>
  The handler of the file input stores the file and empties the explanations list,
  the upload identifier, the error text and the status text; the summary level, the
  language and \<^verbatim>\<open>loading\<close> keep their values. Right after the selection the component
  shows the new file and nothing of an earlier job.
\<close>

lemma selectFile_clears_job_cells:
  "explanations (selectFile f st) = JArr [] \<and>
   uploadUid (selectFile f st) = Some (JStr []) \<and>
   error (selectFile f st) = JStr [] \<and>
   statusText (selectFile f st) = [] \<and>
   selectedFile (selectFile f st) = f \<and>
   summaryLevel (selectFile f st) = summaryLevel st \<and>
   language (selectFile f st) = language st \<and>
   loading (selectFile f st) = loading st \<and>
   \<not> render_throws (selectFile f st) \<and>
   render (selectFile f st) =
     \<lparr>shown_file = f, shown_uid = None, shown_status = None, shown_error = None, shown_slides = []\<rparr> \<and>
   ui (step (SelectFile f) c) = selectFile f (ui c)"
  by (simp add: selectFile_def render_def render_throws_def)

text \<open>
  When no request or timer is outstanding at the selection, the cells stay empty
  under everything that can happen afterwards, until the next upload is started: no
  result of an earlier job is shown beside the selected file.
\<close>

lemma idle_step_keeps_clear:
  assumes "pending c = Idle" and "explanations (ui c) = JArr []" and "e \<noteq> ClickUpload"
  shows "pending (step e c) = Idle \<and> explanations (ui (step e c)) = JArr []"
  using assms by (cases e) (simp_all add: selectFile_def)

lemma idle_run_keeps_clear:
  "pending c = Idle \<Longrightarrow> explanations (ui c) = JArr [] \<Longrightarrow> ClickUpload \<notin> set evs \<Longrightarrow>
     pending (run evs c) = Idle \<and> explanations (ui (run evs c)) = JArr []"
proof (induction evs arbitrary: c)
  case Nil
  then show ?case by simp
next
  case (Cons e evs)
  from Cons.prems have "e \<noteq> ClickUpload" by auto
  from idle_step_keeps_clear[OF Cons.prems(1,2) this] Cons.prems(3) Cons.IH[of "step e c"]
  show ?case by simp
qed

lemma idle_selection_shows_nothing_earlier:
  assumes "pending c = Idle" and "ClickUpload \<notin> set evs"
  shows "shown_slides (render (ui (run evs (step (SelectFile f) c)))) = [] \<and>
         \<not> render_throws (ui (run evs (step (SelectFile f) c)))"
proof -
  have "pending (step (SelectFile f) c) = Idle"
    and "explanations (ui (step (SelectFile f) c)) = JArr []"
    using assms(1) by (simp_all add: selectFile_def)
  from idle_run_keeps_clear[OF this assms(2)] show ?thesis
    by (simp add: render_def render_throws_def)
qed

text \<open>
  Claim C9. Whenever the user selects a new file, the explanations list, the upload
  identifier, the error text and the status text become empty, so that results of an
  earlier job are never shown beside a newly selected file. The code breaks this at
  the following run: \<^verbatim>\<open>a.pptx\<close> is selected and uploaded, the upload is answered with
  the identifier \<^verbatim>\<open>u1\<close>, and \<^verbatim>\<open>b.pptx\<close> is selected while the status of \<^verbatim>\<open>u1\<close> is being
  polled; the file input is the one control without \<^verbatim>\<open>disabled={loading}\<close>. The handler
  empties the cells, the status request then settles as completed, and the component
  renders the summaries of \<^verbatim>\<open>a.pptx\<close> beside the name \<^verbatim>\<open>b.pptx\<close>. The only upload request
  of the run is the one for \<^verbatim>\<open>a.pptx\<close>.
\<close>

theorem stale_result_beside_new_file:
  "shown_file (render (ui (run stale_result_trace start))) = Some ''b.pptx'' \<and>
   shown_slides (render (ui (run stale_result_trace start))) = [slide_a] \<and>
   \<not> render_throws (ui (run stale_result_trace start)) \<and>
   log (run stale_result_trace start) =
     [Fetch (POST ''https://slidesummarizer-backend.onrender.com/upload''
        [(''file'', FileVal ''a.pptx''), (''email'', TextVal ''test@example.com''),
         (''summary_level'', TextVal ''comprehensive''), (''language'', TextVal ''en'')]),
      Fetch (GET ''https://slidesummarizer-backend.onrender.com/status/u1'')]"
  by (simp add: stale_result_trace_def completed_snapshot_def start_def initial_def selectFile_def
        uploadFile_def uploadFile_resume_def upload_try_def pollStatus_def pollStatus_resume_def
        poll_body_def settle_def Let_def field_def js_or_def render_def render_throws_def
        formData_def status_url_def API_URL_def SUMMARY_LEVELS_def)

section \<open>Properties of the job store\<close>

lemma apply_op_existing:
  assumes "get_job s i = Some j"
  shows "\<exists>j'. get_job (apply_op x s) i = Some j' \<and> advance (status j) (status j')"
proof (cases x)
  case (Intake name email now)
  with assms show ?thesis
    by (cases "status j") (auto simp: get_job_def nth_append split: if_splits)
next
  case (Claim k)
  with assms show ?thesis
    by (cases "status j") (auto simp: get_job_def write_if_def nth_list_update split: if_splits)
next
  case (Complete k summaries now)
  with assms show ?thesis
    by (cases "status j") (auto simp: get_job_def write_if_def nth_list_update split: if_splits)
next
  case (Fail k msg now)
  with assms show ?thesis
    by (cases "status j") (auto simp: get_job_def write_if_def nth_list_update split: if_splits)
qed

lemma apply_op_new:
  assumes "get_job s i = None" and "get_job (apply_op x s) i = Some j"
  shows "status j = Uploaded"
  using assms
  by (cases x) (auto simp: get_job_def write_if_def nth_append split: if_splits option.splits)

lemma trace_hd_existing:
  "get_job s i = Some j \<Longrightarrow> \<exists>rest. status_trace i ops s = status j # rest"
  by (cases ops) (simp_all add: observed_def)

lemma trace_hd_new:
  "get_job s i = None \<Longrightarrow> status_trace i ops s = [] \<or> hd (status_trace i ops s) = Uploaded"
proof (induction ops arbitrary: s)
  case Nil
  then show ?case by (simp add: observed_def)
next
  case (Cons x xs)
  show ?case
  proof (cases "get_job (apply_op x s) i")
    case None
    with Cons.IH[OF None] Cons.prems show ?thesis by (simp add: observed_def)
  next
    case (Some j)
    from apply_op_new[OF Cons.prems Some] trace_hd_existing[OF Some, of xs] Cons.prems
    show ?thesis by (auto simp: observed_def)
  qed
qed

lemma trace_successively: "successively advance (status_trace i ops s)"
proof (induction ops arbitrary: s)
  case Nil
  show ?case by (simp add: observed_def split: option.splits)
next
  case (Cons x xs)
  show ?case
  proof (cases "get_job s i")
    case None
    with Cons.IH[of "apply_op x s"] show ?thesis by (simp add: observed_def)
  next
    case (Some j)
    from apply_op_existing[OF Some, of x] obtain j'
      where j': "get_job (apply_op x s) i = Some j'" "advance (status j) (status j')" by blast
    from trace_hd_existing[OF j'(1), of xs] obtain rest
      where r: "status_trace i xs (apply_op x s) = status j' # rest" by blast
    from Cons.IH[of "apply_op x s"] r j'(2) Some show ?thesis
      by (simp add: observed_def)
  qed
qed

lemma run_ops_terminal:
  "get_job s i = Some j \<Longrightarrow> terminal (status j) \<Longrightarrow>
     \<exists>j'. get_job (run_ops ops s) i = Some j' \<and> status j' = status j"
proof (induction ops arbitrary: s j)
  case Nil
  then show ?case by simp
next
  case (Cons x xs)
  from apply_op_existing[OF Cons.prems(1), of x] obtain j'
    where j': "get_job (apply_op x s) i = Some j'" "advance (status j) (status j')" by blast
  with Cons.prems(2) have e: "status j' = status j" by (cases "status j") auto
  with Cons.IH[OF j'(1)] Cons.prems(2) show ?case by auto
qed

lemma via_processing:
  "successively advance (Uploaded # xs) \<Longrightarrow> t \<in> set xs \<Longrightarrow> terminal t \<Longrightarrow> Processing \<in> set xs"
proof (induction xs)
  case Nil
  then show ?case by simp
next
  case (Cons y ys)
  from Cons.prems(1) have a: "advance Uploaded y" by simp
  then have "y = Uploaded \<or> y = Processing" by (cases y) auto
  then show ?case
  proof
    assume y: "y = Uploaded"
    with Cons.prems have "successively advance (Uploaded # ys)" "t \<in> set ys"
      by (auto simp: successively_Cons)
    from Cons.IH[OF this Cons.prems(3)] show ?thesis by simp
  next
    assume "y = Processing" then show ?thesis by simp
  qed
qed

lemma trace_via_processing:
  assumes "terminal t" and "t \<in> set (status_trace i ops [])"
  shows "Processing \<in> set (status_trace i ops [])"
proof -
  have "get_job [] i = None" by (simp add: get_job_def)
  from trace_hd_new[OF this, of ops] assms(2)
  obtain xs where xs: "status_trace i ops [] = Uploaded # xs"
    by (cases "status_trace i ops []") auto
  with trace_successively[of i ops "[]"] have s: "successively advance (Uploaded # xs)" by simp
  from assms xs have "t \<in> set xs" by auto
  from via_processing[OF s this assms(1)] xs show ?thesis by simp
qed

lemma advance_cases:
  "advance a b \<Longrightarrow> a = b \<or> (a = Uploaded \<and> b = Processing) \<or> (a = Processing \<and> terminal b)"
  by (cases a; cases b) simp_all

text \<open>
  Claim C1. Whatever writes reach the store, the statuses a query observes for a job
  form a chain in which each status is the one before or its immediate successor in
  uploaded, processing, completed or failed. So the status never goes back; a job is
  created at uploaded; a job that is seen in a terminal state has been seen in
  processing before; and a job in a terminal state stays in that state under every
  further write.
\<close>

theorem job_status_only_advances:
  "successively advance (status_trace i ops s) \<and>
   (get_job s i = None \<longrightarrow>
      status_trace i ops s = [] \<or> hd (status_trace i ops s) = Uploaded) \<and>
   (\<forall>t. terminal t \<and> t \<in> set (status_trace i ops []) \<longrightarrow>
      Processing \<in> set (status_trace i ops [])) \<and>
   (\<forall>j. get_job s i = Some j \<and> terminal (status j) \<longrightarrow>
      (\<exists>j'. get_job (run_ops ops s) i = Some j' \<and> status j' = status j)) \<and>
   (\<forall>a b. advance a b \<longrightarrow>
      a = b \<or> (a = Uploaded \<and> b = Processing) \<or> (a = Processing \<and> terminal b))"
  using trace_successively[of i ops s] trace_hd_new[of s i ops] trace_via_processing[of _ i ops]
    run_ops_terminal[of s i _ ops] advance_cases
  by blast

text \<open>
  The claim on a history: a job is taken in, claimed and completed; a second claim
  and a late failure write are then rejected.
\<close>

theorem job_status_only_advances_witness:
  "status_trace 0 sample_history [] = [Uploaded, Processing, Completed, Completed, Completed] \<and>
   successively advance (status_trace 0 sample_history []) \<and>
   get_job [] 0 = None \<and>
   hd (status_trace 0 sample_history []) = Uploaded \<and>
   terminal Completed \<and>
   Completed \<in> set (status_trace 0 sample_history []) \<and>
   Processing \<in> set (status_trace 0 sample_history []) \<and>
   advance Processing Completed \<and>
   get_job finished_store 0 = Some (hd finished_store) \<and>
   terminal (status (hd finished_store)) \<and>
   (\<exists>j'. get_job (run_ops [Claim 0, Fail 0 ''late'' 6] finished_store) 0 = Some j' \<and>
         status j' = Completed)"
proof -
  have tr: "status_trace 0 sample_history [] = [Uploaded, Processing, Completed, Completed, Completed]"
    by (simp add: sample_history_def observed_def get_job_def write_if_def)
  have g: "get_job [] 0 = None" by (simp add: get_job_def)
  have t: "terminal Completed" by simp
  have m: "Completed \<in> set (status_trace 0 sample_history [])" by (simp add: tr)
  have ne: "status_trace 0 sample_history [] \<noteq> []" by (simp add: tr)
  note T = job_status_only_advances[of 0 sample_history "[]"]
  from T have s: "successively advance (status_trace 0 sample_history [])" by blast
  from T g ne have h: "hd (status_trace 0 sample_history []) = Uploaded" by blast
  from T t m have p: "Processing \<in> set (status_trace 0 sample_history [])" by blast
  have a: "advance Processing Completed" by simp
  have fj: "get_job finished_store 0 = Some (hd finished_store)"
    by (simp add: finished_store_def get_job_def)
  have ft: "terminal (status (hd finished_store))"
    by (simp add: finished_store_def)
  have fc: "status (hd finished_store) = Completed"
    by (simp add: finished_store_def)
  from job_status_only_advances[of 0 "[Claim 0, Fail 0 ''late'' 6]" finished_store] fj ft
  have k: "\<exists>j'. get_job (run_ops [Claim 0, Fail 0 ''late'' 6] finished_store) 0 = Some j' \<and>
                status j' = Completed"
    unfolding fc[symmetric] by blast
  from tr s g h t m p a fj ft k show ?thesis by (intro conjI)
qed

end
